theory Spec2Isabelle
  imports Main "HOL-Library.Word" "HOL-Library.Multiset"
begin

unbundle bit_operations_syntax

section \<open>Basic types (include/chess_analyzer/core/types.h)\<close>

text \<open>
  A bitboard is a 64-bit unsigned integer, a square and a piece are C++ \<open>int\<close>s.
  The enumerations \<open>PieceType\<close>, \<open>MoveType\<close> and \<open>PromotionType\<close> are
  \<open>uint8_t\<close> codes; they are kept as numbers because \<open>typeOf\<close> computes
  them arithmetically. \<open>Color\<close> is modelled by its two values that are ever stored in a
  position (\<open>NO_COLOR\<close> is never assigned to a side to move).
\<close>

type_synonym Bitboard = "64 word"
type_synonym Square = int
type_synonym Piece = int
type_synonym PieceType = nat
type_synonym MoveType = nat
type_synonym PromotionType = nat

datatype Color = WHITE | BLACK

abbreviation (input) NO_SQUARE :: Square where "NO_SQUARE \<equiv> -1"
abbreviation (input) A1 :: Square where "A1 \<equiv> 0"
abbreviation (input) B1 :: Square where "B1 \<equiv> 1"
abbreviation (input) C1 :: Square where "C1 \<equiv> 2"
abbreviation (input) D1 :: Square where "D1 \<equiv> 3"
abbreviation (input) E1 :: Square where "E1 \<equiv> 4"
abbreviation (input) F1 :: Square where "F1 \<equiv> 5"
abbreviation (input) G1 :: Square where "G1 \<equiv> 6"
abbreviation (input) H1 :: Square where "H1 \<equiv> 7"
abbreviation (input) A8 :: Square where "A8 \<equiv> 56"
abbreviation (input) B8 :: Square where "B8 \<equiv> 57"
abbreviation (input) C8 :: Square where "C8 \<equiv> 58"
abbreviation (input) D8 :: Square where "D8 \<equiv> 59"
abbreviation (input) E8 :: Square where "E8 \<equiv> 60"
abbreviation (input) F8 :: Square where "F8 \<equiv> 61"
abbreviation (input) G8 :: Square where "G8 \<equiv> 62"
abbreviation (input) H8 :: Square where "H8 \<equiv> 63"

abbreviation (input) PAWN :: PieceType where "PAWN \<equiv> 0"
abbreviation (input) KNIGHT :: PieceType where "KNIGHT \<equiv> 1"
abbreviation (input) BISHOP :: PieceType where "BISHOP \<equiv> 2"
abbreviation (input) ROOK :: PieceType where "ROOK \<equiv> 3"
abbreviation (input) QUEEN :: PieceType where "QUEEN \<equiv> 4"
abbreviation (input) KING :: PieceType where "KING \<equiv> 5"

abbreviation (input) NO_PIECE :: Piece where "NO_PIECE \<equiv> 0"
abbreviation (input) W_PAWN :: Piece where "W_PAWN \<equiv> 1"
abbreviation (input) B_PAWN :: Piece where "B_PAWN \<equiv> 9"

abbreviation (input) WHITE_OO :: "8 word" where "WHITE_OO \<equiv> 1"
abbreviation (input) WHITE_OOO :: "8 word" where "WHITE_OOO \<equiv> 2"
abbreviation (input) BLACK_OO :: "8 word" where "BLACK_OO \<equiv> 4"
abbreviation (input) BLACK_OOO :: "8 word" where "BLACK_OOO \<equiv> 8"

abbreviation (input) NORMAL :: MoveType where "NORMAL \<equiv> 0"
abbreviation (input) PROMOTION :: MoveType where "PROMOTION \<equiv> 1"
abbreviation (input) EN_PASSANT :: MoveType where "EN_PASSANT \<equiv> 2"
abbreviation (input) CASTLING :: MoveType where "CASTLING \<equiv> 3"

abbreviation (input) PROMOTE_TO_QUEEN :: PromotionType where "PROMOTE_TO_QUEEN \<equiv> 0"
abbreviation (input) PROMOTE_TO_ROOK :: PromotionType where "PROMOTE_TO_ROOK \<equiv> 1"
abbreviation (input) PROMOTE_TO_BISHOP :: PromotionType where "PROMOTE_TO_BISHOP \<equiv> 2"
abbreviation (input) PROMOTE_TO_KNIGHT :: PromotionType where "PROMOTE_TO_KNIGHT \<equiv> 3"

text \<open>\<open>operator~(Color c)\<close>: \<open>c ^ 1\<close>.\<close>

fun opp :: "Color \<Rightarrow> Color" where
  "opp WHITE = BLACK"
| "opp BLACK = WHITE"

text \<open>The array index of a colour (\<open>WHITE = 0\<close>, \<open>BLACK = 1\<close>).\<close>

fun cidx :: "Color \<Rightarrow> nat" where
  "cidx WHITE = 0"
| "cidx BLACK = 1"

definition makeSquare :: "int \<Rightarrow> int \<Rightarrow> Square" where
  "makeSquare file rank = rank * 8 + file"

definition fileOf :: "Square \<Rightarrow> int" where
  "fileOf sq = sq AND 7"

definition rankOf :: "Square \<Rightarrow> int" where
  "rankOf sq = drop_bit 3 sq"

text \<open>\<open>static_cast<char>(n)\<close> for an \<open>int\<close>, and the code of a \<open>char\<close> as an
  \<open>int\<close>. Only comparisons of codes below 128 matter in this program, so the signedness
  of \<open>char\<close> is not modelled.\<close>

definition to_char :: "int \<Rightarrow> char" where
  "to_char n = char_of (nat (n mod 256))"

definition code :: "char \<Rightarrow> int" where
  "code c = int (of_char c)"

definition squareToString :: "Square \<Rightarrow> string" where
  "squareToString sq =
     (if sq = NO_SQUARE then ''-''
      else [to_char (97 + fileOf sq), to_char (49 + rankOf sq)])"

definition stringToSquare :: "string \<Rightarrow> Square" where
  "stringToSquare str =
     (if length str \<noteq> 2 then NO_SQUARE
      else let file = code (str ! 0) - 97; rank = code (str ! 1) - 49
           in if file < 0 \<or> file > 7 \<or> rank < 0 \<or> rank > 7 then NO_SQUARE
              else makeSquare file rank)"

text \<open>\<open>1ULL << sq\<close>. The shift is undefined in C++ unless \<open>0 \<le> sq < 64\<close>; every
  function below that can call it out of range returns \<open>None\<close> before doing so.\<close>

definition squareBB :: "Square \<Rightarrow> Bitboard" where
  "squareBB sq = push_bit (nat sq) 1"

text \<open>\<open>__builtin_ctzll\<close>: the index of the lowest set bit. Its result is undefined for
  \<open>0\<close>, which is \<open>None\<close> here.\<close>

definition lsb :: "Bitboard \<Rightarrow> Square option" where
  "lsb b = map_option int (List.find (bit b) [0..<64])"

definition popcount :: "Bitboard \<Rightarrow> int" where
  "popcount b = int (length (filter (bit b) [0..<64]))"

text \<open>\<open>typeOf\<close> is \<open>(p - 1) % 6\<close> with C++'s truncating remainder, converted to
  \<open>uint8_t\<close>.\<close>

definition c_rem :: "int \<Rightarrow> int \<Rightarrow> int" where
  "c_rem a b = a - b * (sgn a * sgn b * (\<bar>a\<bar> div \<bar>b\<bar>))"

definition typeOf :: "Piece \<Rightarrow> PieceType" where
  "typeOf p = nat (c_rem (p - 1) 6 mod 256)"

definition colorOf :: "Piece \<Rightarrow> Color" where
  "colorOf p = (if p < B_PAWN then WHITE else BLACK)"

definition makePiece :: "Color \<Rightarrow> PieceType \<Rightarrow> Piece" where
  "makePiece c pt = (if c = WHITE then W_PAWN else B_PAWN) + int pt"

section \<open>Moves (include/chess_analyzer/core/move.h, src/core/move.cpp)\<close>

text \<open>A move is the 16-bit value \<open>data\<close>: bits 0-5 the origin, 6-11 the destination,
  12-13 the promotion piece, 14-15 the move type.\<close>

type_synonym Move = "16 word"

text \<open>\<open>from | (to << 6) | (promotion << 12) | (type << 14)\<close>, computed on \<open>int\<close> and
  converted to \<open>uint16_t\<close>.\<close>

definition encodeMove :: "Square \<Rightarrow> Square \<Rightarrow> MoveType \<Rightarrow> PromotionType \<Rightarrow> Move" where
  "encodeMove f t ty promotion =
     word_of_int (f OR push_bit 6 t OR push_bit 12 (int promotion) OR push_bit 14 (int ty))"

definition NULL_MOVE :: Move where
  "NULL_MOVE = 0"

definition mkMove :: "Square \<Rightarrow> Square \<Rightarrow> Move" where
  "mkMove f t = encodeMove f t NORMAL 0"

definition move_from :: "Move \<Rightarrow> Square" where
  "move_from m = uint (m AND 0x3F)"

definition move_to :: "Move \<Rightarrow> Square" where
  "move_to m = uint (drop_bit 6 m AND 0x3F)"

definition move_type :: "Move \<Rightarrow> MoveType" where
  "move_type m = unat (drop_bit 14 m AND 0x3)"

definition promotionType :: "Move \<Rightarrow> PromotionType" where
  "promotionType m = unat (drop_bit 12 m AND 0x3)"

definition isNull :: "Move \<Rightarrow> bool" where
  "isNull m = (m = 0)"

definition isPromotion :: "Move \<Rightarrow> bool" where
  "isPromotion m = (move_type m = PROMOTION)"

definition isEnPassant :: "Move \<Rightarrow> bool" where
  "isEnPassant m = (move_type m = EN_PASSANT)"

definition isCastling :: "Move \<Rightarrow> bool" where
  "isCastling m = (move_type m = CASTLING)"

definition toUCI :: "Move \<Rightarrow> string" where
  "toUCI m =
     (if isNull m then ''0000''
      else squareToString (move_from m) @ squareToString (move_to m) @
           (if isPromotion m then
              (if promotionType m = PROMOTE_TO_QUEEN then ''q''
               else if promotionType m = PROMOTE_TO_ROOK then ''r''
               else if promotionType m = PROMOTE_TO_BISHOP then ''b''
               else ''n'')
            else []))"

text \<open>\<open>std::tolower\<close> in the C locale.\<close>

definition tolower :: "char \<Rightarrow> char" where
  "tolower c = (if 65 \<le> code c \<and> code c \<le> 90 then to_char (code c + 32) else c)"

definition fromUCI :: "string \<Rightarrow> Move" where
  "fromUCI uci =
     (if length uci < 4 \<or> length uci > 5 then NULL_MOVE
      else let f = stringToSquare (take 2 uci);
               t = stringToSquare (take 2 (drop 2 uci))
           in if f = NO_SQUARE \<or> t = NO_SQUARE then NULL_MOVE
              else if length uci = 5 then
                (let c = tolower (uci ! 4)
                 in if c = CHR ''q'' then encodeMove f t PROMOTION PROMOTE_TO_QUEEN
                    else if c = CHR ''r'' then encodeMove f t PROMOTION PROMOTE_TO_ROOK
                    else if c = CHR ''b'' then encodeMove f t PROMOTION PROMOTE_TO_BISHOP
                    else if c = CHR ''n'' then encodeMove f t PROMOTION PROMOTE_TO_KNIGHT
                    else NULL_MOVE)
              else if \<bar>t - f\<bar> = 2 \<and> (f = E1 \<or> f = E8) then encodeMove f t CASTLING PROMOTE_TO_QUEEN
              else mkMove f t)"

section \<open>Positions (include/chess_analyzer/core/position.h, src/core/position.cpp)\<close>

text \<open>\<open>pieceBitboards\<close> is \<open>std::array<std::array<Bitboard, 6>, 2>\<close>, indexed
  \<open>[color][piece_type]\<close>: a list of two lists of six bitboards. The clocks are C++
  \<open>int\<close>s, modelled without their overflow.\<close>

record Position =
  pieceBitboards :: "Bitboard list list"
  sideToMove :: Color
  castlingRights :: "8 word"
  enPassantSquare :: Square
  halfmoveClock :: int
  fullmoveNumber :: int
  zobristHash :: "64 word"

definition getPieceBitboard :: "Position \<Rightarrow> PieceType \<Rightarrow> Color \<Rightarrow> Bitboard" where
  "getPieceBitboard p piece color = pieceBitboards p ! cidx color ! piece"

definition getColorBitboard :: "Position \<Rightarrow> Color \<Rightarrow> Bitboard" where
  "getColorBitboard p color = foldl (OR) 0 (map ((!) (pieceBitboards p ! cidx color)) [PAWN..<Suc KING])"

definition getOccupiedBitboard :: "Position \<Rightarrow> Bitboard" where
  "getOccupiedBitboard p = getColorBitboard p WHITE OR getColorBitboard p BLACK"

text \<open>The first \<open>(color, type)\<close>, white before black and pawn to king, whose bitboard
  holds the square.\<close>

definition getPieceAt :: "Position \<Rightarrow> Square \<Rightarrow> Piece" where
  "getPieceAt p square =
     (case List.find (\<lambda>(c, pt). pieceBitboards p ! cidx c ! pt AND squareBB square \<noteq> 0)
             (List.product [WHITE, BLACK] [PAWN..<Suc KING]) of
        Some (c, pt) \<Rightarrow> makePiece c pt
      | None \<Rightarrow> NO_PIECE)"

definition putPiece :: "Square \<Rightarrow> PieceType \<Rightarrow> Color \<Rightarrow> Position \<Rightarrow> Position" where
  "putPiece square piece color p =
     p\<lparr>pieceBitboards := (pieceBitboards p)
          [cidx color := (pieceBitboards p ! cidx color)
             [piece := pieceBitboards p ! cidx color ! piece OR squareBB square]]\<rparr>"

definition clearSquare :: "Square \<Rightarrow> Position \<Rightarrow> Position" where
  "clearSquare square p =
     p\<lparr>pieceBitboards := map (map (\<lambda>pieceBB. pieceBB AND NOT (squareBB square))) (pieceBitboards p)\<rparr>"

text \<open>\<open>Position::operator==\<close>.\<close>

definition pos_eq :: "Position \<Rightarrow> Position \<Rightarrow> bool" where
  "pos_eq p other =
     (pieceBitboards p = pieceBitboards other \<and>
      sideToMove p = sideToMove other \<and>
      castlingRights p = castlingRights other \<and>
      enPassantSquare p = enPassantSquare other)"

section \<open>Attack helpers (core/bitboard_attacks.h, src/core/bitboard_attacks.cpp)\<close>

abbreviation (input) FILE_A :: Bitboard where "FILE_A \<equiv> 0x0101010101010101"
abbreviation (input) FILE_H :: Bitboard where "FILE_H \<equiv> 0x8080808080808080"

text \<open>The instances of \<open>shift<Direction>\<close> that the program uses.\<close>

definition shift_NORTH_EAST :: "Bitboard \<Rightarrow> Bitboard" where
  "shift_NORTH_EAST b = push_bit 9 (b AND NOT FILE_H)"

definition shift_NORTH_WEST :: "Bitboard \<Rightarrow> Bitboard" where
  "shift_NORTH_WEST b = push_bit 7 (b AND NOT FILE_A)"

definition shift_SOUTH_EAST :: "Bitboard \<Rightarrow> Bitboard" where
  "shift_SOUTH_EAST b = drop_bit 7 (b AND NOT FILE_H)"

definition shift_SOUTH_WEST :: "Bitboard \<Rightarrow> Bitboard" where
  "shift_SOUTH_WEST b = drop_bit 9 (b AND NOT FILE_A)"

text \<open>The tables \<open>knightAttacks\<close> and \<open>kingAttacks\<close> hold, for each square, the union
  of the squares reached by the eight offsets that stay on the board. Both source files
  that build them (bitboard_attacks.cpp and move_generator.cpp) fill them the same way;
  the entry is computed here as the initialiser computes it.\<close>

fun addOffset :: "Square \<Rightarrow> Bitboard \<Rightarrow> int \<times> int \<Rightarrow> Bitboard" where
  "addOffset sq attacks (dr, df) =
     (let newRank = rankOf sq + dr; newFile = fileOf sq + df
      in if newRank \<ge> 0 \<and> newRank < 8 \<and> newFile \<ge> 0 \<and> newFile < 8
         then attacks OR squareBB (makeSquare newFile newRank) else attacks)"

definition offsetAttacks :: "(int \<times> int) list \<Rightarrow> Square \<Rightarrow> Bitboard" where
  "offsetAttacks offs sq = foldl (addOffset sq) 0 offs"

definition knightAttacks :: "Square \<Rightarrow> Bitboard" where
  "knightAttacks sq =
     offsetAttacks [(-2, -1), (-2, 1), (-1, -2), (-1, 2), (1, -2), (1, 2), (2, -1), (2, 1)] sq"

definition kingAttacks :: "Square \<Rightarrow> Bitboard" where
  "kingAttacks sq =
     offsetAttacks [(-1, -1), (-1, 0), (-1, 1), (0, -1), (0, 1), (1, -1), (1, 0), (1, 1)] sq"

definition knightAttacksBB :: "Square \<Rightarrow> Bitboard" where
  "knightAttacksBB sq = knightAttacks sq"

definition kingAttacksBB :: "Square \<Rightarrow> Bitboard" where
  "kingAttacksBB sq = kingAttacks sq"

text \<open>One ray of a sliding piece: the squares of the ray are visited in order, each is
  added, and the scan stops after the first occupied one.\<close>

fun rayScan :: "Bitboard \<Rightarrow> Square list \<Rightarrow> Bitboard" where
  "rayScan occupied [] = 0"
| "rayScan occupied (s # ss) =
     squareBB s OR (if occupied AND squareBB s \<noteq> 0 then 0 else rayScan occupied ss)"

text \<open>The squares of the four diagonal and the four straight loops, in loop order. A loop
  over two counters ends when either leaves the board, as \<open>zip\<close> ends with its shorter
  list.\<close>

definition up_from :: "int \<Rightarrow> int list" where
  "up_from k = [k + 1..7]"

definition down_from :: "int \<Rightarrow> int list" where
  "down_from k = rev [0..k - 1]"

definition diagSquares :: "int list \<Rightarrow> int list \<Rightarrow> Square list" where
  "diagSquares rs fs = map (\<lambda>(r, f). makeSquare f r) (zip rs fs)"

definition bishopAttacksBB :: "Square \<Rightarrow> Bitboard \<Rightarrow> Bitboard" where
  "bishopAttacksBB sq occupied =
     (let rank = rankOf sq; file = fileOf sq
      in rayScan occupied (diagSquares (up_from rank) (up_from file)) OR
         rayScan occupied (diagSquares (down_from rank) (up_from file)) OR
         rayScan occupied (diagSquares (down_from rank) (down_from file)) OR
         rayScan occupied (diagSquares (up_from rank) (down_from file)))"

definition rookAttacksBB :: "Square \<Rightarrow> Bitboard \<Rightarrow> Bitboard" where
  "rookAttacksBB sq occupied =
     (let rank = rankOf sq; file = fileOf sq
      in rayScan occupied (map (\<lambda>r. makeSquare file r) (up_from rank)) OR
         rayScan occupied (map (\<lambda>r. makeSquare file r) (down_from rank)) OR
         rayScan occupied (map (\<lambda>f. makeSquare f rank) (up_from file)) OR
         rayScan occupied (map (\<lambda>f. makeSquare f rank) (down_from file)))"

section \<open>Making a move (src/core/position_moves.cpp)\<close>

text \<open>\<open>Position::isSquareAttacked\<close>; its callers pass a square of the board.\<close>

definition isSquareAttacked :: "Position \<Rightarrow> Square \<Rightarrow> Color \<Rightarrow> bool" where
  "isSquareAttacked p square byColor =
     (let occupied = getOccupiedBitboard p;
          enemyPawns = getPieceBitboard p PAWN byColor
      in if (if byColor = WHITE
             then (shift_SOUTH_WEST (squareBB square) OR shift_SOUTH_EAST (squareBB square))
                    AND enemyPawns \<noteq> 0
             else (shift_NORTH_WEST (squareBB square) OR shift_NORTH_EAST (squareBB square))
                    AND enemyPawns \<noteq> 0) then True
         else if knightAttacksBB square AND getPieceBitboard p KNIGHT byColor \<noteq> 0 then True
         else if bishopAttacksBB square occupied AND
                 (getPieceBitboard p BISHOP byColor OR getPieceBitboard p QUEEN byColor) \<noteq> 0
           then True
         else if rookAttacksBB square occupied AND
                 (getPieceBitboard p ROOK byColor OR getPieceBitboard p QUEEN byColor) \<noteq> 0
           then True
         else if kingAttacksBB square AND getPieceBitboard p KING byColor \<noteq> 0 then True
         else False)"

text \<open>\<open>Position::isInCheck\<close>: \<open>None\<close> when the side to move has no king, where
  \<open>lsb\<close> is undefined.\<close>

definition isInCheck :: "Position \<Rightarrow> bool option" where
  "isInCheck p =
     (case lsb (getPieceBitboard p KING (sideToMove p)) of
        None \<Rightarrow> None
      | Some kingSquare \<Rightarrow> Some (isSquareAttacked p kingSquare (opp (sideToMove p))))"

text \<open>The four steps of \<open>Position::makeMove\<close> that follow the clearing of the origin
  square, in the order of the source.\<close>

definition promotedPieceOf :: "PromotionType \<Rightarrow> PieceType" where
  "promotedPieceOf pr =
     (if pr = PROMOTE_TO_QUEEN then QUEEN
      else if pr = PROMOTE_TO_ROOK then ROOK
      else if pr = PROMOTE_TO_BISHOP then BISHOP
      else KNIGHT)"

text \<open>Placing the moved piece. \<open>None\<close> marks the two places where the source reads or
  writes outside an array or shifts by an amount outside \<open>0..63\<close>: an en-passant move
  whose captured-pawn square is off the board, and a normal move from an empty square
  (\<open>typeOf NO_PIECE\<close> is 255).\<close>

definition placeMoved :: "Move \<Rightarrow> PieceType \<Rightarrow> Color \<Rightarrow> Position \<Rightarrow> Position option" where
  "placeMoved m pieceType us np =
     (let f = move_from m; t = move_to m
      in if isCastling m then
           (let np1 = putPiece t KING us np
            in if t > f then
                 (let rookFrom = (if us = WHITE then H1 else H8);
                      rookTo = (if us = WHITE then F1 else F8)
                  in Some (putPiece rookTo ROOK us (clearSquare rookFrom np1)))
               else
                 (let rookFrom = (if us = WHITE then A1 else A8);
                      rookTo = (if us = WHITE then D1 else D8)
                  in Some (putPiece rookTo ROOK us (clearSquare rookFrom np1))))
         else if isEnPassant m then
           (let np1 = putPiece t PAWN us np;
                capturedPawnSq = (if us = WHITE then t - 8 else t + 8)
            in if capturedPawnSq < 0 \<or> capturedPawnSq > 63 then None
               else Some ((clearSquare capturedPawnSq np1)\<lparr>halfmoveClock := 0\<rparr>))
         else if isPromotion m then
           Some ((putPiece t (promotedPieceOf (promotionType m)) us np)\<lparr>halfmoveClock := 0\<rparr>)
         else if pieceType > KING then None
         else
           (let np1 = putPiece t pieceType us np
            in Some (if pieceType = PAWN then np1\<lparr>halfmoveClock := 0\<rparr> else np1)))"

definition updateCastling :: "Move \<Rightarrow> PieceType \<Rightarrow> Color \<Rightarrow> 8 word \<Rightarrow> 8 word" where
  "updateCastling m pieceType us cr =
     (let f = move_from m; t = move_to m;
          cr1 = (if pieceType = KING then
                   (if us = WHITE then cr AND NOT (WHITE_OO OR WHITE_OOO)
                    else cr AND NOT (BLACK_OO OR BLACK_OOO))
                 else if pieceType = ROOK then
                   (if f = A1 then cr AND NOT WHITE_OOO
                    else if f = H1 then cr AND NOT WHITE_OO
                    else if f = A8 then cr AND NOT BLACK_OOO
                    else if f = H8 then cr AND NOT BLACK_OO
                    else cr)
                 else cr)
      in if t = A1 then cr1 AND NOT WHITE_OOO
         else if t = H1 then cr1 AND NOT WHITE_OO
         else if t = A8 then cr1 AND NOT BLACK_OOO
         else if t = H8 then cr1 AND NOT BLACK_OO
         else cr1)"

definition makeMove :: "Position \<Rightarrow> Move \<Rightarrow> Position option" where
  "makeMove p m =
     (let f = move_from m; t = move_to m;
          movedPiece = getPieceAt p f;
          capturedPiece = getPieceAt p t;
          pieceType = typeOf movedPiece;
          us = sideToMove p;
          them = opp us;
          np1 = clearSquare f p;
          np2 = (if capturedPiece \<noteq> NO_PIECE then (clearSquare t np1)\<lparr>halfmoveClock := 0\<rparr>
                 else np1\<lparr>halfmoveClock := halfmoveClock np1 + 1\<rparr>)
      in case placeMoved m pieceType us np2 of
           None \<Rightarrow> None
         | Some np3 \<Rightarrow>
             Some (np3\<lparr>castlingRights := updateCastling m pieceType us (castlingRights np3),
                       enPassantSquare :=
                         (if pieceType = PAWN \<and> \<bar>t - f\<bar> = 16
                          then (if us = WHITE then f + 8 else f - 8)
                          else NO_SQUARE),
                       sideToMove := them,
                       fullmoveNumber :=
                         (if us = BLACK then fullmoveNumber np3 + 1 else fullmoveNumber np3),
                       zobristHash := zobristHash np3 + 1\<rparr>))"

section \<open>Move generation (src/core/move_generator.cpp)\<close>

text \<open>A loop \<open>while (b) { sq = popLsb(b); ... }\<close> visits the set bits of \<open>b\<close> from the
  lowest to the highest.\<close>

definition squaresOf :: "Bitboard \<Rightarrow> Square list" where
  "squaresOf b = map int (filter (bit b) [0..<64])"

text \<open>The generator's own pawn table: \<open>sqBB << 7\<close>, \<open>sqBB << 9\<close> for white and
  \<open>sqBB >> 9\<close>, \<open>sqBB >> 7\<close> for black, guarded by the file only.\<close>

definition pawnAttacks :: "Color \<Rightarrow> Square \<Rightarrow> Bitboard" where
  "pawnAttacks c sq =
     (let sqBB = squareBB sq; file = fileOf sq
      in if c = WHITE
         then (if file > 0 then push_bit 7 sqBB else 0) OR (if file < 7 then push_bit 9 sqBB else 0)
         else (if file > 0 then drop_bit 9 sqBB else 0) OR (if file < 7 then drop_bit 7 sqBB else 0))"

definition getRookAttacks :: "Square \<Rightarrow> Bitboard \<Rightarrow> Bitboard" where
  "getRookAttacks sq occupied =
     (let rank = rankOf sq; file = fileOf sq
      in rayScan occupied (map (\<lambda>r. makeSquare file r) (up_from rank)) OR
         rayScan occupied (map (\<lambda>r. makeSquare file r) (down_from rank)) OR
         rayScan occupied (map (\<lambda>f. makeSquare f rank) (up_from file)) OR
         rayScan occupied (map (\<lambda>f. makeSquare f rank) (down_from file)))"

definition getBishopAttacks :: "Square \<Rightarrow> Bitboard \<Rightarrow> Bitboard" where
  "getBishopAttacks sq occupied =
     (let rank = rankOf sq; file = fileOf sq
      in rayScan occupied (diagSquares (up_from rank) (up_from file)) OR
         rayScan occupied (diagSquares (down_from rank) (up_from file)) OR
         rayScan occupied (diagSquares (down_from rank) (down_from file)) OR
         rayScan occupied (diagSquares (up_from rank) (down_from file)))"

definition promotions :: "Square \<Rightarrow> Square \<Rightarrow> Move list" where
  "promotions f t =
     [encodeMove f t PROMOTION PROMOTE_TO_QUEEN, encodeMove f t PROMOTION PROMOTE_TO_ROOK,
      encodeMove f t PROMOTION PROMOTE_TO_BISHOP, encodeMove f t PROMOTION PROMOTE_TO_KNIGHT]"

definition pawnCapture :: "bool \<Rightarrow> Square \<Rightarrow> Square \<Rightarrow> Move list" where
  "pawnCapture onRank7 f captureSq =
     (if onRank7 then promotions f captureSq else [mkMove f captureSq])"

text \<open>The body of the pawn loop for the pawn on \<open>f\<close>. \<open>squareBB(to)\<close> is evaluated for
  every pawn, and \<open>squareBB(epSquare)\<close> whenever an en-passant square is set: the result
  is \<open>None\<close> when either is off the board (a pawn on its last rank, an en-passant square
  other than \<open>NO_SQUARE\<close> outside \<open>0..63\<close>).\<close>

definition pawnMovesFrom :: "Position \<Rightarrow> Color \<Rightarrow> Bitboard \<Rightarrow> Bitboard \<Rightarrow> Square \<Rightarrow> Move list option" where
  "pawnMovesFrom p us theirPieces occupied f =
     (let pawnPush = (if us = WHITE then 8 else -8);
          doublePush = (if us = WHITE then 16 else -16);
          rank2 = (if us = WHITE then 0xFF00 else 0x00FF000000000000);
          rank7 = (if us = WHITE then 0x00FF000000000000 else 0xFF00);
          t = f + pawnPush;
          epSquare = enPassantSquare p
      in if t < 0 \<or> t > 63 then None
         else if epSquare \<noteq> NO_SQUARE \<and> (epSquare < 0 \<or> epSquare > 63) then None
         else Some (
           (if occupied AND squareBB t = 0 then
              (if squareBB f AND rank7 \<noteq> 0 then promotions f t
               else mkMove f t #
                    (if squareBB f AND rank2 \<noteq> 0 \<and> occupied AND squareBB (f + doublePush) = 0
                     then [mkMove f (f + doublePush)] else []))
            else []) @
           concat (map (pawnCapture (squareBB f AND rank7 \<noteq> 0) f)
                       (squaresOf (pawnAttacks us f AND theirPieces))) @
           (if epSquare \<noteq> NO_SQUARE \<and> pawnAttacks us f AND squareBB epSquare \<noteq> 0
            then [encodeMove f epSquare EN_PASSANT PROMOTE_TO_QUEEN] else [])))"

text \<open>Running a loop body that may be undefined over a list, appending what it emits.\<close>

fun collect :: "('a \<Rightarrow> 'b list option) \<Rightarrow> 'a list \<Rightarrow> 'b list option" where
  "collect g [] = Some []"
| "collect g (x # xs) =
     (case g x of None \<Rightarrow> None
      | Some ys \<Rightarrow> (case collect g xs of None \<Rightarrow> None | Some zs \<Rightarrow> Some (ys @ zs)))"

definition generatePawnMoves :: "Position \<Rightarrow> Color \<Rightarrow> Bitboard \<Rightarrow> Bitboard \<Rightarrow> Move list option" where
  "generatePawnMoves p us theirPieces occupied =
     collect (pawnMovesFrom p us theirPieces occupied) (squaresOf (getPieceBitboard p PAWN us))"

definition getAttacks :: "PieceType \<Rightarrow> Square \<Rightarrow> Bitboard \<Rightarrow> Bitboard" where
  "getAttacks PT sq occupied =
     (if PT = KNIGHT then knightAttacks sq
      else if PT = BISHOP then getBishopAttacks sq occupied
      else if PT = ROOK then getRookAttacks sq occupied
      else if PT = QUEEN then getBishopAttacks sq occupied OR getRookAttacks sq occupied
      else 0)"

definition pieceMovesFrom :: "PieceType \<Rightarrow> Bitboard \<Rightarrow> Bitboard \<Rightarrow> Square \<Rightarrow> Move list" where
  "pieceMovesFrom PT ourPieces occupied f =
     map (mkMove f) (squaresOf (getAttacks PT f occupied AND NOT ourPieces))"

definition generatePieceMoves :: "PieceType \<Rightarrow> Position \<Rightarrow> Color \<Rightarrow> Bitboard \<Rightarrow> Bitboard \<Rightarrow> Move list" where
  "generatePieceMoves PT p us ourPieces occupied =
     concat (map (pieceMovesFrom PT ourPieces occupied) (squaresOf (getPieceBitboard p PT us)))"

definition generateKingMoves :: "Position \<Rightarrow> Color \<Rightarrow> Bitboard \<Rightarrow> Move list option" where
  "generateKingMoves p us ourPieces =
     (case lsb (getPieceBitboard p KING us) of
        None \<Rightarrow> None
      | Some kingSquare \<Rightarrow>
          Some (map (mkMove kingSquare) (squaresOf (kingAttacks kingSquare AND NOT ourPieces))))"

definition generateCastlingMoves :: "Position \<Rightarrow> Color \<Rightarrow> Bitboard \<Rightarrow> Move list option" where
  "generateCastlingMoves p us occupied =
     (case isInCheck p of
        None \<Rightarrow> None
      | Some True \<Rightarrow> Some []
      | Some False \<Rightarrow>
          (case lsb (getPieceBitboard p KING us) of
             None \<Rightarrow> None
           | Some kingSquare \<Rightarrow>
               (let rights = castlingRights p
                in if us = WHITE then
                     Some ((if rights AND WHITE_OO \<noteq> 0 \<and>
                               occupied AND (squareBB F1 OR squareBB G1) = 0 \<and>
                               \<not> isSquareAttacked p F1 BLACK \<and>
                               \<not> isSquareAttacked p G1 BLACK
                            then [encodeMove E1 G1 CASTLING PROMOTE_TO_QUEEN] else []) @
                           (if rights AND WHITE_OOO \<noteq> 0 \<and>
                               occupied AND (squareBB B1 OR squareBB C1 OR squareBB D1) = 0 \<and>
                               \<not> isSquareAttacked p C1 BLACK \<and>
                               \<not> isSquareAttacked p D1 BLACK
                            then [encodeMove E1 C1 CASTLING PROMOTE_TO_QUEEN] else []))
                   else
                     Some ((if rights AND BLACK_OO \<noteq> 0 \<and>
                               occupied AND (squareBB F8 OR squareBB G8) = 0 \<and>
                               \<not> isSquareAttacked p F8 WHITE \<and>
                               \<not> isSquareAttacked p G8 WHITE
                            then [encodeMove E8 G8 CASTLING PROMOTE_TO_QUEEN] else []) @
                           (if rights AND BLACK_OOO \<noteq> 0 \<and>
                               occupied AND (squareBB B8 OR squareBB C8 OR squareBB D8) = 0 \<and>
                               \<not> isSquareAttacked p C8 WHITE \<and>
                               \<not> isSquareAttacked p D8 WHITE
                            then [encodeMove E8 C8 CASTLING PROMOTE_TO_QUEEN] else [])))))"

text \<open>\<open>MoveGenerator::Impl::generateAllMoves\<close>: pawns, knights, bishops, rooks, queens,
  king, castling, in this order.\<close>

definition generateAllMoves :: "Position \<Rightarrow> Move list option" where
  "generateAllMoves p =
     (let us = sideToMove p;
          ourPieces = getColorBitboard p us;
          theirPieces = getColorBitboard p (opp us);
          occupied = ourPieces OR theirPieces
      in case generatePawnMoves p us theirPieces occupied of
           None \<Rightarrow> None
         | Some pawnMoves \<Rightarrow>
            (case generateKingMoves p us ourPieces of
               None \<Rightarrow> None
             | Some kingMoves \<Rightarrow>
                (case generateCastlingMoves p us occupied of
                   None \<Rightarrow> None
                 | Some castlingMoves \<Rightarrow>
                     Some (pawnMoves @
                           generatePieceMoves KNIGHT p us ourPieces occupied @
                           generatePieceMoves BISHOP p us ourPieces occupied @
                           generatePieceMoves ROOK p us ourPieces occupied @
                           generatePieceMoves QUEEN p us ourPieces occupied @
                           kingMoves @ castlingMoves))))"

definition generatePseudoLegalMoves :: "Position \<Rightarrow> Move list option" where
  "generatePseudoLegalMoves p = generateAllMoves p"

text \<open>The legal filter keeps a move when \<open>newPos.isInCheck()\<close> is false, that is when
  the side to move \<^emph>\<open>after\<close> the move is not in check.\<close>

definition keepIfLegal :: "Position \<Rightarrow> Move \<Rightarrow> Move list option" where
  "keepIfLegal p m =
     (case makeMove p m of
        None \<Rightarrow> None
      | Some newPos \<Rightarrow>
          (case isInCheck newPos of
             None \<Rightarrow> None
           | Some c \<Rightarrow> Some (if \<not> c then [m] else [])))"

definition generateLegalMoves :: "Position \<Rightarrow> Move list option" where
  "generateLegalMoves p =
     (case generatePseudoLegalMoves p of
        None \<Rightarrow> None
      | Some pseudoLegal \<Rightarrow> collect (keepIfLegal p) pseudoLegal)"

definition isCaptureMove :: "Position \<Rightarrow> Move \<Rightarrow> bool" where
  "isCaptureMove p m = (getPieceAt p (move_to m) \<noteq> NO_PIECE \<or> isEnPassant m)"

definition isQuietMove :: "Position \<Rightarrow> Move \<Rightarrow> bool" where
  "isQuietMove p m = (getPieceAt p (move_to m) = NO_PIECE \<and> \<not> isEnPassant m)"

definition generateCaptures :: "Position \<Rightarrow> Move list option" where
  "generateCaptures p =
     (case generatePseudoLegalMoves p of
        None \<Rightarrow> None
      | Some allMoves \<Rightarrow> Some (filter (isCaptureMove p) allMoves))"

definition generateQuietMoves :: "Position \<Rightarrow> Move list option" where
  "generateQuietMoves p =
     (case generatePseudoLegalMoves p of
        None \<Rightarrow> None
      | Some allMoves \<Rightarrow> Some (filter (isQuietMove p) allMoves))"

section \<open>FEN (src/core/position.cpp)\<close>

text \<open>The character classes of \<open>cctype\<close> in the C locale.\<close>

definition isdigit :: "char \<Rightarrow> bool" where
  "isdigit c = (48 \<le> code c \<and> code c \<le> 57)"

definition isupper :: "char \<Rightarrow> bool" where
  "isupper c = (65 \<le> code c \<and> code c \<le> 90)"

definition isspace :: "char \<Rightarrow> bool" where
  "isspace c = (code c = 32 \<or> (9 \<le> code c \<and> code c \<le> 13))"

definition notspace :: "char \<Rightarrow> bool" where
  "notspace c = (\<not> isspace c)"

definition toupper :: "char \<Rightarrow> char" where
  "toupper c = (if 97 \<le> code c \<and> code c \<le> 122 then to_char (code c - 32) else c)"

text \<open>\<open>operator<<\<close> for an \<open>int\<close>: decimal digits, with a minus sign when negative.\<close>

function showNat :: "nat \<Rightarrow> string" where
  "showNat n =
     (if n < 10 then [to_char (48 + int n)]
      else showNat (n div 10) @ [to_char (48 + int (n mod 10))])"
  by pat_completeness auto
termination
  by (relation "measure id") auto

declare showNat.simps [simp del]

definition showInt :: "int \<Rightarrow> string" where
  "showInt i = (if i < 0 then CHR ''-'' # showNat (nat (- i)) else showNat (nat i))"

definition pieceChar :: "Piece \<Rightarrow> char" where
  "pieceChar pc =
     (let pt = typeOf pc;
          ch = (if pt = PAWN then CHR ''p''
                else if pt = KNIGHT then CHR ''n''
                else if pt = BISHOP then CHR ''b''
                else if pt = ROOK then CHR ''r''
                else if pt = QUEEN then CHR ''q''
                else if pt = KING then CHR ''k''
                else CHR ''?'')
      in if colorOf pc = WHITE then toupper ch else ch)"

definition flushEmpty :: "int \<Rightarrow> string" where
  "flushEmpty emptyCount = (if emptyCount > 0 then showInt emptyCount else [])"

text \<open>The inner loop of \<open>toFEN\<close> over the files that remain on a rank, with the running
  count of empty squares.\<close>

fun fenRank :: "Position \<Rightarrow> int \<Rightarrow> int list \<Rightarrow> int \<Rightarrow> string" where
  "fenRank p rank [] emptyCount = flushEmpty emptyCount"
| "fenRank p rank (file # files) emptyCount =
     (let pc = getPieceAt p (makeSquare file rank)
      in if pc = NO_PIECE then fenRank p rank files (emptyCount + 1)
         else flushEmpty emptyCount @ pieceChar pc # fenRank p rank files 0)"

definition fenRankLine :: "Position \<Rightarrow> int \<Rightarrow> string" where
  "fenRankLine p rank =
     fenRank p rank [0, 1, 2, 3, 4, 5, 6, 7] 0 @ (if rank > 0 then ''/'' else [])"

definition castlingField :: "8 word \<Rightarrow> string" where
  "castlingField cr =
     (if cr = 0 then ''-''
      else (if cr AND WHITE_OO \<noteq> 0 then ''K'' else []) @
           (if cr AND WHITE_OOO \<noteq> 0 then ''Q'' else []) @
           (if cr AND BLACK_OO \<noteq> 0 then ''k'' else []) @
           (if cr AND BLACK_OOO \<noteq> 0 then ''q'' else []))"

definition toFEN :: "Position \<Rightarrow> string" where
  "toFEN p =
     concat (map (fenRankLine p) [7, 6, 5, 4, 3, 2, 1, 0]) @
     CHR '' '' # (if sideToMove p = WHITE then CHR ''w'' else CHR ''b'') #
     CHR '' '' # castlingField (castlingRights p) @
     CHR '' '' # (if enPassantSquare p = NO_SQUARE then ''-''
                  else squareToString (enPassantSquare p)) @
     CHR '' '' # showInt (halfmoveClock p) @
     CHR '' '' # showInt (fullmoveNumber p)"

text \<open>An input string stream (\<open>std::istringstream\<close>): the characters left, the end-of-file
  bit and the fail bit. Every extraction first builds a sentry: on a stream that is not good
  it sets the fail bit and extracts nothing; otherwise it skips white space, and when that
  reaches the end of the input it sets both bits and extracts nothing. An extraction that
  reads up to the end of the input sets the end-of-file bit. An extraction whose sentry
  fails leaves its target as it was; an \<open>int\<close> extraction that finds no digits stores 0 and
  fails, one whose number is outside the range of \<open>int\<close> stores the nearest bound and
  fails.\<close>

record istream =
  chars :: string
  eofbit :: bool
  failbit :: bool

definition good :: "istream \<Rightarrow> bool" where
  "good st = (\<not> eofbit st \<and> \<not> failbit st)"

definition getWord :: "istream \<Rightarrow> string \<times> istream" where
  "getWord st =
     (if \<not> good st then ([], st\<lparr>failbit := True\<rparr>)
      else let s1 = dropWhile isspace (chars st);
               rest = dropWhile notspace s1
           in if s1 = [] then ([], \<lparr>chars = [], eofbit = True, failbit = True\<rparr>)
              else (takeWhile notspace s1, \<lparr>chars = rest, eofbit = (rest = []), failbit = False\<rparr>))"

definition digitsValue :: "string \<Rightarrow> int" where
  "digitsValue ds = foldl (\<lambda>acc c. acc * 10 + (code c - 48)) 0 ds"

definition getInt :: "istream \<Rightarrow> int \<Rightarrow> int \<times> istream" where
  "getInt st old =
     (if \<not> good st then (old, st\<lparr>failbit := True\<rparr>)
      else let s1 = dropWhile isspace (chars st);
               neg = (s1 \<noteq> [] \<and> hd s1 = CHR ''-'');
               s2 = (if s1 \<noteq> [] \<and> (hd s1 = CHR ''-'' \<or> hd s1 = CHR ''+'') then tl s1 else s1);
               ds = takeWhile isdigit s2;
               rest = dropWhile isdigit s2;
               v = (if neg then - digitsValue ds else digitsValue ds)
           in if s1 = [] then (old, \<lparr>chars = [], eofbit = True, failbit = True\<rparr>)
              else if ds = [] then (0, \<lparr>chars = rest, eofbit = (rest = []), failbit = True\<rparr>)
              else if v > 2147483647
                then (2147483647, \<lparr>chars = rest, eofbit = (rest = []), failbit = True\<rparr>)
              else if v < - 2147483648
                then (- 2147483648, \<lparr>chars = rest, eofbit = (rest = []), failbit = True\<rparr>)
              else (v, \<lparr>chars = rest, eofbit = (rest = []), failbit = False\<rparr>))"

definition pieceOfChar :: "char \<Rightarrow> PieceType option" where
  "pieceOfChar ch =
     (if ch = CHR ''p'' then Some PAWN
      else if ch = CHR ''n'' then Some KNIGHT
      else if ch = CHR ''b'' then Some BISHOP
      else if ch = CHR ''r'' then Some ROOK
      else if ch = CHR ''q'' then Some QUEEN
      else if ch = CHR ''k'' then Some KING
      else None)"

text \<open>The board loop of \<open>initializeFromFEN\<close>. \<open>putPiece\<close> on a square outside the
  board is the undefined shift: \<open>None\<close>.\<close>

fun parseBoard :: "string \<Rightarrow> Square \<Rightarrow> Position \<Rightarrow> Position option" where
  "parseBoard [] sq p = Some p"
| "parseBoard (ch # rest) sq p =
     (if ch = CHR ''/'' then parseBoard rest (sq - 16) p
      else if isdigit ch then parseBoard rest (sq + (code ch - 48)) p
      else (case pieceOfChar (tolower ch) of
              None \<Rightarrow> parseBoard rest sq p
            | Some pt \<Rightarrow>
                if sq < 0 \<or> sq > 63 then None
                else parseBoard rest (sq + 1)
                       (putPiece sq pt (if isupper ch then WHITE else BLACK) p)))"

fun parseCastling :: "string \<Rightarrow> 8 word \<Rightarrow> 8 word" where
  "parseCastling [] cr = cr"
| "parseCastling (ch # rest) cr =
     parseCastling rest
       (if ch = CHR ''K'' then cr OR WHITE_OO
        else if ch = CHR ''Q'' then cr OR WHITE_OOO
        else if ch = CHR ''k'' then cr OR BLACK_OO
        else if ch = CHR ''q'' then cr OR BLACK_OOO
        else cr)"

definition STARTING_FEN :: string where
  "STARTING_FEN = ''rnbqkbnr/pppppppp/8/8/8/8/PPPPPPPP/RNBQKBNR w KQkq - 0 1''"

text \<open>\<open>initializeFromFEN\<close> writes into the object under construction, \<open>this\<close>, whose
  clocks keep their earlier contents when the input ends, or the stream has failed, before
  them.\<close>

definition initializeFromFEN :: "Position \<Rightarrow> string \<Rightarrow> Position option" where
  "initializeFromFEN this fen =
     (let r1 = getWord \<lparr>chars = fen, eofbit = False, failbit = False\<rparr>;
          r2 = getWord (snd r1);
          r3 = getWord (snd r2);
          r4 = getWord (snd r3);
          r5 = getInt (snd r4) (halfmoveClock this);
          r6 = getInt (snd r5) (fullmoveNumber this);
          board = fst r1; color = fst r2; castling = fst r3; enPassant = fst r4
      in case parseBoard board A8 (this\<lparr>pieceBitboards := replicate 2 (replicate 6 0)\<rparr>) of
           None \<Rightarrow> None
         | Some p1 \<Rightarrow>
             Some (p1\<lparr>sideToMove := (if color = ''w'' then WHITE else BLACK),
                      castlingRights := parseCastling castling 0,
                      enPassantSquare :=
                        (if enPassant = ''-'' then NO_SQUARE else stringToSquare enPassant),
                      halfmoveClock := fst r5,
                      fullmoveNumber := fst r6,
                      zobristHash := 0\<rparr>))"

section \<open>The endgame switch (src/evaluation/evaluator.cpp)\<close>

abbreviation (input) PieceValue_KNIGHT :: int where "PieceValue_KNIGHT \<equiv> 320"
abbreviation (input) PieceValue_BISHOP :: int where "PieceValue_BISHOP \<equiv> 330"
abbreviation (input) PieceValue_ROOK :: int where "PieceValue_ROOK \<equiv> 500"
abbreviation (input) PieceValue_QUEEN :: int where "PieceValue_QUEEN \<equiv> 900"

definition isEndgame :: "Position \<Rightarrow> bool" where
  "isEndgame p =
     (popcount (getPieceBitboard p QUEEN WHITE) * PieceValue_QUEEN +
      popcount (getPieceBitboard p QUEEN BLACK) * PieceValue_QUEEN +
      popcount (getPieceBitboard p ROOK WHITE) * PieceValue_ROOK +
      popcount (getPieceBitboard p ROOK BLACK) * PieceValue_ROOK < 2000)"

text \<open>The quantity the specification names: the total value of the knights, bishops,
  rooks and queens of both sides.\<close>

definition nonPawnNonKingMaterial :: "Position \<Rightarrow> int" where
  "nonPawnNonKingMaterial p =
     (popcount (getPieceBitboard p KNIGHT WHITE) + popcount (getPieceBitboard p KNIGHT BLACK))
        * PieceValue_KNIGHT +
     (popcount (getPieceBitboard p BISHOP WHITE) + popcount (getPieceBitboard p BISHOP BLACK))
        * PieceValue_BISHOP +
     (popcount (getPieceBitboard p ROOK WHITE) + popcount (getPieceBitboard p ROOK BLACK))
        * PieceValue_ROOK +
     (popcount (getPieceBitboard p QUEEN WHITE) + popcount (getPieceBitboard p QUEEN BLACK))
        * PieceValue_QUEEN"

section \<open>Search (src/chess_analyzer.cpp)\<close>

record SearchResult =
  move :: Move
  score :: int

abbreviation (input) INT_MAX :: int where "INT_MAX \<equiv> 2147483647"

text \<open>The comparator handed to \<open>std::sort\<close>: \<open>aCapture > bCapture\<close>.\<close>

definition captureFirst :: "Position \<Rightarrow> Move \<Rightarrow> Move \<Rightarrow> bool" where
  "captureFirst pos a b =
     (let aCapture = (getPieceAt pos (move_to a) \<noteq> NO_PIECE);
          bCapture = (getPieceAt pos (move_to b) \<noteq> NO_PIECE)
      in aCapture \<and> \<not> bCapture)"

text \<open>The loop over the ordered moves. \<open>rec\<close> is the search one ply deeper.\<close>

fun searchLoop ::
  "(Position \<Rightarrow> int \<Rightarrow> int \<Rightarrow> SearchResult option) \<Rightarrow> Position \<Rightarrow> Move list \<Rightarrow>
   SearchResult \<Rightarrow> int \<Rightarrow> int \<Rightarrow> SearchResult option" where
  "searchLoop rec pos [] best alpha beta = Some best"
| "searchLoop rec pos (m # ms) best alpha beta =
     (case makeMove pos m of
        None \<Rightarrow> None
      | Some newPos \<Rightarrow>
          (case rec newPos (- beta) (- alpha) of
             None \<Rightarrow> None
           | Some result \<Rightarrow>
               (let sc = - score result;
                    best1 = (if sc > score best then \<lparr>move = m, score = sc\<rparr> else best);
                    alpha1 = max alpha sc
                in if alpha1 \<ge> beta then Some best1
                   else searchLoop rec pos ms best1 alpha1 beta)))"

text \<open>\<open>ChessAnalyzer::Impl::search\<close>. The evaluator is the parameter \<open>ev\<close> (\<open>None\<close>
  where it is undefined). \<open>std::sort\<close> leaves the order of equivalent elements open, so
  the permutation it produces is the parameter \<open>srt\<close>, applied to the comparator and the
  move list. The depth counts down to 0; scores are C++ \<open>int\<close>s, modelled without
  overflow.\<close>

primrec search ::
  "(Position \<Rightarrow> int option) \<Rightarrow> ((Move \<Rightarrow> Move \<Rightarrow> bool) \<Rightarrow> Move list \<Rightarrow> Move list) \<Rightarrow>
   nat \<Rightarrow> Position \<Rightarrow> int \<Rightarrow> int \<Rightarrow> SearchResult option" where
  "search ev srt 0 = (\<lambda>pos alpha beta.
     case ev pos of None \<Rightarrow> None | Some v \<Rightarrow> Some \<lparr>move = NULL_MOVE, score = v\<rparr>)"
| "search ev srt (Suc d) = (\<lambda>pos alpha beta.
     case generateLegalMoves pos of
       None \<Rightarrow> None
     | Some moves \<Rightarrow>
         (case moves of
            [] \<Rightarrow>
              (case isInCheck pos of
                 None \<Rightarrow> None
               | Some c \<Rightarrow>
                   Some \<lparr>move = NULL_MOVE, score = (if c then - 20000 + int (Suc d) else 0)\<rparr>)
          | m0 # _ \<Rightarrow>
              searchLoop (search ev srt d) pos (srt (captureFirst pos) moves)
                \<lparr>move = m0, score = - INT_MAX\<rparr> alpha beta))"

text \<open>One order that \<open>std::sort\<close> may produce: insertion sort, which keeps equivalent
  elements in their original order.\<close>

fun insertBy :: "('a \<Rightarrow> 'a \<Rightarrow> bool) \<Rightarrow> 'a \<Rightarrow> 'a list \<Rightarrow> 'a list" where
  "insertBy lt x [] = [x]"
| "insertBy lt x (y # ys) = (if lt y x then y # insertBy lt x ys else x # y # ys)"

definition insertionSort :: "('a \<Rightarrow> 'a \<Rightarrow> bool) \<Rightarrow> 'a list \<Rightarrow> 'a list" where
  "insertionSort lt xs = foldr (insertBy lt) xs []"

text \<open>\<open>ChessAnalyzer::findBestMove\<close>. With a negative depth the recursion never meets
  \<open>depth == 0\<close>; that case, outside the documented \<open>depth \<ge> 1\<close>, is \<open>None\<close>.\<close>

definition findBestMove ::
  "(Position \<Rightarrow> int option) \<Rightarrow> ((Move \<Rightarrow> Move \<Rightarrow> bool) \<Rightarrow> Move list \<Rightarrow> Move list) \<Rightarrow>
   Position \<Rightarrow> int \<Rightarrow> Move option" where
  "findBestMove ev srt position depth =
     (if depth < 0 then None
      else map_option move (search ev srt (nat depth) position (- INT_MAX) INT_MAX))"

section \<open>PGN move text (src/notation/pgn_parser.cpp)\<close>

fun removeCV :: "string \<Rightarrow> int \<Rightarrow> int \<Rightarrow> string" where
  "removeCV [] braceLevel parenLevel = []"
| "removeCV (c # cs) braceLevel parenLevel =
     (if c = CHR ''{'' then removeCV cs (braceLevel + 1) parenLevel
      else if c = CHR ''}'' then removeCV cs (braceLevel - 1) parenLevel
      else if c = CHR ''('' then removeCV cs braceLevel (parenLevel + 1)
      else if c = CHR '')'' then removeCV cs braceLevel (parenLevel - 1)
      else if braceLevel = 0 \<and> parenLevel = 0 then c # removeCV cs braceLevel parenLevel
      else removeCV cs braceLevel parenLevel)"

definition removeCommentsAndVariations :: "string \<Rightarrow> string" where
  "removeCommentsAndVariations text = removeCV text 0 0"

text \<open>The words \<open>stream >> token\<close> yields: \<open>cur\<close> is the word being read.\<close>

fun splitWords :: "string \<Rightarrow> string \<Rightarrow> string list" where
  "splitWords cur [] = (if cur = [] then [] else [cur])"
| "splitWords cur (c # cs) =
     (if isspace c then (if cur = [] then [] else [cur]) @ splitWords [] cs
      else splitWords (cur @ [c]) cs)"

text \<open>A token with a dot that is not its last character is split after the first dot.\<close>

definition splitToken :: "string \<Rightarrow> string list" where
  "splitToken token =
     (let dotPos = length (takeWhile (\<lambda>c. c \<noteq> CHR ''.'') token)
      in if dotPos < length token \<and> dotPos + 1 < length token
         then [take (dotPos + 1) token, drop (dotPos + 1) token]
         else [token])"

definition tokenize :: "string \<Rightarrow> string list" where
  "tokenize text = concat (map splitToken (splitWords [] text))"

text \<open>\<open>token[0]\<close>; for an empty \<open>std::string\<close> it is the terminating null character.\<close>

definition firstChar :: "string \<Rightarrow> char" where
  "firstChar token = (case token of [] \<Rightarrow> CHR 0x00 | c # _ \<Rightarrow> c)"

text \<open>The candidate test of \<open>parseAlgebraicMoveImpl\<close>: each \<open>continue\<close> of the source is a
  branch that rejects the move.\<close>

definition sanCandidate ::
  "Position \<Rightarrow> Square \<Rightarrow> PieceType \<Rightarrow> bool \<Rightarrow> bool \<Rightarrow> PromotionType \<Rightarrow> Move \<Rightarrow> bool" where
  "sanCandidate pos t pieceType isCapture isPromo promotion m =
     (if move_to m \<noteq> t then False
      else if typeOf (getPieceAt pos (move_from m)) \<noteq> pieceType then False
      else if isCapture \<and> getPieceAt pos t = NO_PIECE \<and> \<not> isEnPassant m then False
      else if \<not> isCapture \<and> (getPieceAt pos t \<noteq> NO_PIECE \<or> isEnPassant m) then False
      else if isPromo \<and> \<not> isPromotion m then False
      else if \<not> isPromo \<and> isPromotion m then False
      else if isPromo \<and> promotionType m \<noteq> promotion then False
      else True)"

fun disambMatches :: "string \<Rightarrow> Move \<Rightarrow> bool" where
  "disambMatches [] m = True"
| "disambMatches (c # cs) m =
     (if code c \<ge> 97 \<and> code c \<le> 104 then
        (if fileOf (move_from m) \<noteq> code c - 97 then False else disambMatches cs m)
      else if code c \<ge> 49 \<and> code c \<le> 56 then
        (if rankOf (move_from m) \<noteq> code c - 49 then False else disambMatches cs m)
      else disambMatches cs m)"

definition promotionOfChar :: "char \<Rightarrow> PromotionType option" where
  "promotionOfChar ch =
     (if ch = CHR ''q'' then Some PROMOTE_TO_QUEEN
      else if ch = CHR ''r'' then Some PROMOTE_TO_ROOK
      else if ch = CHR ''b'' then Some PROMOTE_TO_BISHOP
      else if ch = CHR ''n'' then Some PROMOTE_TO_KNIGHT
      else None)"

definition sanPieceOfChar :: "char \<Rightarrow> PieceType option" where
  "sanPieceOfChar ch =
     (if ch = CHR ''N'' then Some KNIGHT
      else if ch = CHR ''B'' then Some BISHOP
      else if ch = CHR ''R'' then Some ROOK
      else if ch = CHR ''Q'' then Some QUEEN
      else if ch = CHR ''K'' then Some KING
      else None)"

text \<open>The last part of \<open>parseAlgebraicMoveImpl\<close>: the legal moves are filtered by the
  parsed shape, then by the disambiguation characters \<open>str\<close>.\<close>

definition sanResolve ::
  "Position \<Rightarrow> Square \<Rightarrow> PieceType \<Rightarrow> bool \<Rightarrow> bool \<Rightarrow> PromotionType \<Rightarrow> string \<Rightarrow> Move option" where
  "sanResolve pos t pieceType isCapture isPromo promotion str =
     (case generateLegalMoves pos of
        None \<Rightarrow> None
      | Some legalMoves \<Rightarrow>
          (let candidates = filter (sanCandidate pos t pieceType isCapture isPromo promotion) legalMoves;
               candidates1 = (if length candidates > 1 \<and> str \<noteq> []
                              then filter (disambMatches str) candidates else candidates)
           in Some (case candidates1 of [m] \<Rightarrow> m | _ \<Rightarrow> NULL_MOVE)))"

text \<open>The middle part: destination square and piece letter, after the check mark, the
  promotion suffix and the capture mark have been taken off.\<close>

definition sanShape ::
  "Position \<Rightarrow> bool \<Rightarrow> PromotionType \<Rightarrow> string \<Rightarrow> Move option" where
  "sanShape pos isPromo promotion str0 =
     (let isCapture = (CHR ''x'' \<in> set str0);
          str1 = remove1 (CHR ''x'') str0
      in if length str1 < 2 then Some NULL_MOVE
         else let t = stringToSquare (drop (length str1 - 2) str1);
                  str2 = take (length str1 - 2) str1
              in if t = NO_SQUARE then Some NULL_MOVE
                 else if str2 \<noteq> [] \<and> isupper (hd str2) then
                   (case sanPieceOfChar (hd str2) of
                      None \<Rightarrow> Some NULL_MOVE
                    | Some pieceType \<Rightarrow>
                        sanResolve pos t pieceType isCapture isPromo promotion (tl str2))
                 else sanResolve pos t PAWN isCapture isPromo promotion str2)"

definition parseAlgebraicMoveImpl :: "Position \<Rightarrow> string \<Rightarrow> Move option" where
  "parseAlgebraicMoveImpl pos moveStr =
     (if moveStr = [] then Some NULL_MOVE
      else if moveStr = ''O-O'' \<or> moveStr = ''0-0'' then
        Some (encodeMove (if sideToMove pos = WHITE then E1 else E8)
                         (if sideToMove pos = WHITE then G1 else G8) CASTLING PROMOTE_TO_QUEEN)
      else if moveStr = ''O-O-O'' \<or> moveStr = ''0-0-0'' then
        Some (encodeMove (if sideToMove pos = WHITE then E1 else E8)
                         (if sideToMove pos = WHITE then C1 else C8) CASTLING PROMOTE_TO_QUEEN)
      else let str = (if last moveStr = CHR ''+'' \<or> last moveStr = CHR ''#''
                      then butlast moveStr else moveStr)
           in if length str \<ge> 2 \<and> str ! (length str - 2) = CHR ''='' then
                (case promotionOfChar (tolower (last str)) of
                   None \<Rightarrow> Some NULL_MOVE
                 | Some promotion \<Rightarrow> sanShape pos True promotion (take (length str - 2) str))
              else sanShape pos False PROMOTE_TO_QUEEN str)"

definition isResultToken :: "string \<Rightarrow> bool" where
  "isResultToken token =
     (token = ''1-0'' \<or> token = ''0-1'' \<or> token = ''1/2-1/2'' \<or> token = ''*'')"

text \<open>The token loop of \<open>parseMoveText\<close>, returning the moves and \<open>lastError\<close>.\<close>

fun parseTokens ::
  "Position \<Rightarrow> string list \<Rightarrow> Move list \<Rightarrow> string \<Rightarrow> (Move list \<times> string) option" where
  "parseTokens pos [] moves lastError = Some (moves, lastError)"
| "parseTokens pos (token # rest) moves lastError =
     (if isdigit (firstChar token) \<or> isResultToken token
      then parseTokens pos rest moves lastError
      else (case parseAlgebraicMoveImpl pos token of
              None \<Rightarrow> None
            | Some m \<Rightarrow>
                if \<not> isNull m then
                  (case makeMove pos m of
                     None \<Rightarrow> None
                   | Some pos1 \<Rightarrow> parseTokens pos1 rest (moves @ [m]) lastError)
                else Some (moves, ''Invalid move: '' @ token)))"

definition parseMoveText ::
  "Position \<Rightarrow> string \<Rightarrow> string \<Rightarrow> string \<Rightarrow> (Move list \<times> string) option" where
  "parseMoveText this moveText initialFEN lastError =
     (case initializeFromFEN this (if initialFEN = [] then STARTING_FEN else initialFEN) of
        None \<Rightarrow> None
      | Some pos \<Rightarrow>
          parseTokens pos (tokenize (removeCommentsAndVariations moveText)) [] lastError)"

section \<open>Properties named by the specification\<close>

text \<open>The legality test as the specification words it (section 4.4): after the move has
  been made, the king of the side that moved is not attacked by the other side. The
  result is \<open>None\<close> where \<open>makeMove\<close> is undefined or the mover has no king.\<close>

definition ownKingSafeAfter :: "Position \<Rightarrow> Move \<Rightarrow> bool option" where
  "ownKingSafeAfter p m =
     (case makeMove p m of
        None \<Rightarrow> None
      | Some newPos \<Rightarrow>
          (case lsb (getPieceBitboard newPos KING (sideToMove p)) of
             None \<Rightarrow> None
           | Some kingSquare \<Rightarrow>
               Some (\<not> isSquareAttacked newPos kingSquare (opp (sideToMove p)))))"



section \<open>Example positions\<close>

text \<open>The starting position, as \<open>initializeFromFEN\<close> builds it from \<open>STARTING_FEN\<close>.\<close>

definition startPosition :: Position where
  "startPosition =
     \<lparr>pieceBitboards =
        [[0xFF00, 0x42, 0x24, 0x81, 0x08, 0x10],
         [0x00FF000000000000, 0x4200000000000000, 0x2400000000000000,
          0x8100000000000000, 0x0800000000000000, 0x1000000000000000]],
      sideToMove = WHITE, castlingRights = 15, enPassantSquare = NO_SQUARE,
      halfmoveClock = 0, fullmoveNumber = 1, zobristHash = 0\<rparr>"

text \<open>\<open>1nb1kbn1/pppppppp/8/8/8/8/PPPPPPPP/RNBQKBNR w KQ - 0 1\<close>: the starting position
  without the black queen and the black rooks.\<close>

definition minorsPosition :: Position where
  "minorsPosition =
     \<lparr>pieceBitboards =
        [[0xFF00, 0x42, 0x24, 0x81, 0x08, 0x10],
         [0x00FF000000000000, 0x4200000000000000, 0x2400000000000000,
          0, 0, 0x1000000000000000]],
      sideToMove = WHITE, castlingRights = 3, enPassantSquare = NO_SQUARE,
      halfmoveClock = 0, fullmoveNumber = 1, zobristHash = 0\<rparr>"

text \<open>\<open>4k3/8/8/3p4/4P3/8/8/4K3 w - - 0 1\<close>: kings on e1 and e8, a white pawn on e4 that
  can push or capture the black pawn on d5.\<close>

definition pawnDuel :: Position where
  "pawnDuel =
     \<lparr>pieceBitboards =
        [[0x10000000, 0, 0, 0, 0, 0x10],
         [0x800000000, 0, 0, 0, 0, 0x1000000000000000]],
      sideToMove = WHITE, castlingRights = 0, enPassantSquare = NO_SQUARE,
      halfmoveClock = 0, fullmoveNumber = 1, zobristHash = 0\<rparr>"

text \<open>\<open>r3k2r/8/8/8/8/8/8/R3K2R b KQkq - 0 1\<close>: kings and rooks on their home squares,
  all four castling rights, black to move.\<close>

definition castleRooks :: Position where
  "castleRooks =
     \<lparr>pieceBitboards =
        [[0, 0, 0, 0x81, 0, 0x10],
         [0, 0, 0, 0x8100000000000000, 0, 0x1000000000000000]],
      sideToMove = BLACK, castlingRights = 15, enPassantSquare = NO_SQUARE,
      halfmoveClock = 0, fullmoveNumber = 1, zobristHash = 0\<rparr>"

text \<open>\<open>4k3/8/8/4Ppp1/8/5N2/8/4K3 w - f6 0 1\<close>: black has just played f7-f5; the white
  pawn on e5 can capture en passant on f6 and the knight on f3 can capture on g5.\<close>

definition epPosition :: Position where
  "epPosition =
     \<lparr>pieceBitboards =
        [[0x1000000000, 0x200000, 0, 0, 0, 0x10],
         [0x6000000000, 0, 0, 0, 0, 0x1000000000000000]],
      sideToMove = WHITE, castlingRights = 0, enPassantSquare = 45,
      halfmoveClock = 0, fullmoveNumber = 1, zobristHash = 0\<rparr>"

text \<open>\<open>4k3/8/8/8/8/8/8/4K2R w K - 0 1\<close>: white may castle kingside.\<close>

definition rookCastle :: Position where
  "rookCastle =
     \<lparr>pieceBitboards =
        [[0, 0, 0, 0x80, 0, 0x10],
         [0, 0, 0, 0, 0, 0x1000000000000000]],
      sideToMove = WHITE, castlingRights = 1, enPassantSquare = NO_SQUARE,
      halfmoveClock = 0, fullmoveNumber = 1, zobristHash = 0\<rparr>"


text \<open>\<open>4k3/8/8/8/8/8/8/4K3 w K - 0 1\<close>: the white kingside right is set and there is no
  rook on the board.\<close>

definition rooklessCastle :: Position where
  "rooklessCastle =
     \<lparr>pieceBitboards =
        [[0, 0, 0, 0, 0, 0x10],
         [0, 0, 0, 0, 0, 0x1000000000000000]],
      sideToMove = WHITE, castlingRights = 1, enPassantSquare = NO_SQUARE,
      halfmoveClock = 0, fullmoveNumber = 1, zobristHash = 0\<rparr>"

text \<open>\<open>r4rk1/8/8/8/8/8/8/1K2R3 b kq - 0 1\<close>: the black king stands on g8 with both black
  castling rights still set; the white rook on e1 attacks e8.\<close>

definition kingAway :: Position where
  "kingAway =
     \<lparr>pieceBitboards =
        [[0, 0, 0, 0x10, 0, 0x02],
         [0, 0, 0, 0x2100000000000000, 0, 0x4000000000000000]],
      sideToMove = BLACK, castlingRights = 12, enPassantSquare = NO_SQUARE,
      halfmoveClock = 0, fullmoveNumber = 1, zobristHash = 0\<rparr>"

text \<open>\<open>r3k2r/8/8/8/8/8/8/1K1R4 b kq - 0 1\<close>: black may castle kingside; after that and the
  reply Rd1-e1 the game is in \<open>kingAway\<close>.\<close>

definition beforeKingAway :: Position where
  "beforeKingAway =
     \<lparr>pieceBitboards =
        [[0, 0, 0, 0x08, 0, 0x02],
         [0, 0, 0, 0x8100000000000000, 0, 0x1000000000000000]],
      sideToMove = BLACK, castlingRights = 12, enPassantSquare = NO_SQUARE,
      halfmoveClock = 0, fullmoveNumber = 1, zobristHash = 0\<rparr>"

text \<open>\<open>6k1/8/8/8/8/8/6PP/4r2K w - - 0 1\<close>: white is checkmated; the black rook on e1
  attacks the king on h1 along the first rank.\<close>

definition matedPosition :: Position where
  "matedPosition =
     \<lparr>pieceBitboards =
        [[0xC000, 0, 0, 0, 0, 0x80],
         [0, 0, 0, 0x10, 0, 0x4000000000000000]],
      sideToMove = WHITE, castlingRights = 0, enPassantSquare = NO_SQUARE,
      halfmoveClock = 0, fullmoveNumber = 1, zobristHash = 0\<rparr>"

text \<open>\<open>8/8/1p6/1P6/B7/pP6/P1k5/K7 w - - 0 1\<close>: white is not in check and has one move
  that leaves its king safe, b3-b4, which uncovers the bishop's check on c2.\<close>

definition onlyCheckPosition :: Position where
  "onlyCheckPosition =
     \<lparr>pieceBitboards =
        [[0x200020100, 0, 0x1000000, 0, 0, 0x01],
         [0x20000010000, 0, 0, 0, 0, 0x400]],
      sideToMove = WHITE, castlingRights = 0, enPassantSquare = NO_SQUARE,
      halfmoveClock = 0, fullmoveNumber = 1, zobristHash = 0\<rparr>"

section \<open>Evaluating the model\<close>

text \<open>Facts that let the simplifier run the definitions on concrete inputs.\<close>

lemma upt64:
  "[0..<64] =
     [0, 1, 2, 3, 4, 5, 6, 7, 8, 9, 10, 11, 12, 13, 14, 15] @
     [16, 17, 18, 19, 20, 21, 22, 23, 24, 25, 26, 27, 28, 29, 30, 31] @
     [32, 33, 34, 35, 36, 37, 38, 39, 40, 41, 42, 43, 44, 45, 46, 47] @
     [48, 49, 50, 51, 52, 53, 54, 55, 56, 57, 58, 59, 60, 61, 62, 63]"
  by code_simp

lemma upt6: "[0..<Suc 5] = [0, 1, 2, 3, 4, 5]" "[0..<6] = [0, 1, 2, 3, 4, 5]"
  by code_simp+

lemma upto_unfold:
  "[0..j] = (if 0 \<le> j then 0 # [1..j] else [])"
  "[1..j] = (if 1 \<le> j then 1 # [2..j] else [])"
  by (simp_all add: upto.simps)

lemma replicate_unfold: "replicate 2 x = [x, x]" "replicate 6 x = [x, x, x, x, x, x]"
  by (simp_all add: numeral_eq_Suc)

lemma list_update_numeral:
  "(x # xs)[numeral n := y] = x # xs[pred_numeral n := y]"
  by (simp add: numeral_eq_Suc)

lemma squaresOf_0: "squaresOf 0 = []"
  by (simp add: squaresOf_def)

lemma popcount_0: "popcount 0 = 0"
  by (simp add: popcount_def)

lemma lsb_0: "lsb 0 = None"
  by (simp add: lsb_def find_None_iff)

lemma move_masks: "(0x3F::16 word) = mask 6" "(3::16 word) = mask 2"
  by (simp_all add: mask_eq_exp_minus_1)

lemma encode_decode:
  "encodeMove (move_from m) (move_to m) (move_type m) (promotionType m) = m"
proof (rule bit_word_eqI)
  fix n assume "n < LENGTH(16)"
  then consider "n < 6" | "6 \<le> n" "n < 12" | "12 \<le> n" "n < 14" | "14 \<le> n" "n < 16"
    by fastforce
  then show "bit (encodeMove (move_from m) (move_to m) (move_type m) (promotionType m)) n = bit m n"
    unfolding encodeMove_def move_from_def move_to_def move_type_def promotionType_def move_masks
    by cases (auto simp add: bit_simps)
qed

lemma move_from_range: "0 \<le> move_from m \<and> move_from m < 64"
proof -
  have "uint (m AND mask 6) = take_bit 6 (uint m)"
    by (simp add: unsigned_take_bit_eq flip: take_bit_eq_mask)
  then have "uint (m AND mask 6) < 2 ^ 6" using take_bit_int_less_exp [of 6 "uint m"] by simp
  then show ?thesis by (simp add: move_from_def move_masks)
qed

lemma move_to_range: "0 \<le> move_to m \<and> move_to m < 64"
proof -
  have "uint (drop_bit 6 m AND mask 6) = take_bit 6 (uint (drop_bit 6 m))"
    by (simp add: unsigned_take_bit_eq flip: take_bit_eq_mask)
  then have "uint (drop_bit 6 m AND mask 6) < 2 ^ 6"
    using take_bit_int_less_exp [of 6 "uint (drop_bit 6 m)"] by simp
  then show ?thesis by (simp add: move_to_def move_masks)
qed

lemma promotionType_range: "promotionType m < 4"
proof -
  have "unat (drop_bit 12 m AND mask 2) = take_bit 2 (unat (drop_bit 12 m))"
    by (simp add: unsigned_take_bit_eq flip: take_bit_eq_mask)
  then have "unat (drop_bit 12 m AND mask 2) < 2 ^ 2"
    using take_bit_nat_less_exp [of 2 "unat (drop_bit 12 m)"] by simp
  then show ?thesis by (simp add: promotionType_def move_masks)
qed

lemma rf_eval: "rankOf sq = sq div 8" "fileOf sq = sq mod 8"
proof -
  show "rankOf sq = sq div 8" by (simp add: rankOf_def drop_bit_eq_div)
  have "sq AND mask 3 = sq mod 2 ^ 3" by (simp add: take_bit_eq_mod flip: take_bit_eq_mask)
  then show "fileOf sq = sq mod 8" by (simp add: fileOf_def mask_eq_exp_minus_1)
qed

lemma code_to_char: "0 \<le> n \<Longrightarrow> n < 256 \<Longrightarrow> code (to_char n) = n"
  by (simp add: code_def to_char_def)

lemma square_string_roundtrip:
  assumes "0 \<le> sq" "sq < 64"
  shows "stringToSquare (squareToString sq) = sq"
proof -
  have f: "\<not> sq mod 8 < 0 \<and> \<not> 7 < sq mod 8" by presburger
  have r: "\<not> sq div 8 < 0 \<and> \<not> 7 < sq div 8" using assms by presburger
  have c: "code (to_char (97 + sq mod 8)) = 97 + sq mod 8" "code (to_char (49 + sq div 8)) = 49 + sq div 8"
    using f r by (simp_all add: code_to_char)
  show ?thesis using assms f r
    by (simp add: stringToSquare_def squareToString_def rf_eval c makeSquare_def Let_def)
qed

lemma squareToString_length: "sq \<noteq> -1 \<Longrightarrow> length (squareToString sq) = 2"
  by (simp add: squareToString_def)

lemma tolower_lowercase [simp]:
  "tolower CHR ''q'' = CHR ''q''" "tolower CHR ''r'' = CHR ''r''"
  "tolower CHR ''b'' = CHR ''b''" "tolower CHR ''n'' = CHR ''n''"
  by (simp_all add: tolower_def code_def)


lemmas move_eval = encodeMove_def mkMove_def move_from_def move_to_def move_type_def
  promotionType_def isNull_def isPromotion_def isEnPassant_def isCastling_def NULL_MOVE_def

lemmas char_eval = code_def to_char_def char_of_def bit_0 tolower_def toupper_def isdigit_def
  isupper_def isspace_def notspace_def

lemmas board_eval = upt64 upt6 upto_unfold replicate_unfold list_update_numeral rf_eval squaresOf_0 popcount_0 lsb_0
  squareBB_def squaresOf_def lsb_def popcount_def typeOf_def c_rem_def colorOf_def
  makePiece_def makeSquare_def getPieceBitboard_def getColorBitboard_def
  getOccupiedBitboard_def getPieceAt_def putPiece_def clearSquare_def
  shift_NORTH_EAST_def shift_NORTH_WEST_def shift_SOUTH_EAST_def shift_SOUTH_WEST_def
  offsetAttacks_def knightAttacks_def kingAttacks_def knightAttacksBB_def kingAttacksBB_def
  up_from_def down_from_def diagSquares_def bishopAttacksBB_def rookAttacksBB_def
  isSquareAttacked_def isInCheck_def promotedPieceOf_def placeMoved_def updateCastling_def
  makeMove_def Let_def

lemmas fen_eval = showNat.simps showInt_def pieceChar_def flushEmpty_def fenRankLine_def
  castlingField_def toFEN_def good_def getWord_def digitsValue_def getInt_def pieceOfChar_def
  STARTING_FEN_def initializeFromFEN_def squareToString_def stringToSquare_def

lemmas pgn_eval = removeCommentsAndVariations_def splitToken_def tokenize_def firstChar_def
  sanCandidate_def promotionOfChar_def sanPieceOfChar_def sanResolve_def sanShape_def
  parseAlgebraicMoveImpl_def isResultToken_def parseMoveText_def

lemmas gen_eval = pawnAttacks_def getRookAttacks_def getBishopAttacks_def promotions_def
  pawnCapture_def pawnMovesFrom_def generatePawnMoves_def getAttacks_def pieceMovesFrom_def
  generatePieceMoves_def generateKingMoves_def generateCastlingMoves_def generateAllMoves_def
  generatePseudoLegalMoves_def keepIfLegal_def generateLegalMoves_def isCaptureMove_def
  isQuietMove_def generateCaptures_def generateQuietMoves_def

section \<open>Position equality\<close>

text \<open>Claim C10. \<open>operator==\<close> looks at the piece bitboards, the side to move, the castling
  rights and the en-passant square only: it holds exactly when these four agree, so a
  position stays equal to itself whatever is written into its halfmove clock, fullmove
  number and hash, and the outcome of comparing two positions does not depend on those
  fields.\<close>

theorem pos_eq_ignores_clocks_and_hash:
  "pos_eq p (p\<lparr>halfmoveClock := h, fullmoveNumber := n, zobristHash := z\<rparr>) \<and>
   pos_eq p q =
     pos_eq (p\<lparr>halfmoveClock := h, fullmoveNumber := n, zobristHash := z\<rparr>)
            (q\<lparr>halfmoveClock := h', fullmoveNumber := n', zobristHash := z'\<rparr>) \<and>
   pos_eq p q =
     (pieceBitboards p = pieceBitboards q \<and> sideToMove p = sideToMove q \<and>
      castlingRights p = castlingRights q \<and> enPassantSquare p = enPassantSquare q)"
  by (simp add: pos_eq_def)

section \<open>UCI notation\<close>

text \<open>Claim C5 (amended). \<open>fromUCI (toUCI m) = m\<close> holds for every move whose type is
  normal or promotion, provided that a normal move carries no promotion bits and is not a
  step of two squares from e1 or e8 (which \<open>fromUCI\<close> always reads as castling).\<close>

theorem fromUCI_toUCI:
  assumes ty: "move_type m = NORMAL \<or> move_type m = PROMOTION"
    and pr: "move_type m = NORMAL \<longrightarrow> promotionType m = 0"
    and nc: "move_type m = NORMAL \<longrightarrow>
             \<not> (\<bar>move_to m - move_from m\<bar> = 2 \<and> (move_from m = E1 \<or> move_from m = E8))"
  shows "fromUCI (toUCI m) = m"
proof (cases "m = 0")
  case True
  then show ?thesis
    by (simp add: toUCI_def isNull_def fromUCI_def stringToSquare_def code_def NULL_MOVE_def Let_def)
next
  case False
  define f t where "f = move_from m" and "t = move_to m"
  have fr: "0 \<le> f" "f < 64" and tr: "0 \<le> t" "t < 64"
    using move_from_range [of m] move_to_range [of m] by (simp_all add: f_def t_def)
  have sf: "stringToSquare (squareToString f) = f" and st: "stringToSquare (squareToString t) = t"
    using fr tr by (simp_all add: square_string_roundtrip)
  have lf: "length (squareToString f) = 2" and lt: "length (squareToString t) = 2"
    using fr tr by (simp_all add: squareToString_length)
  from ty show ?thesis
  proof
    assume n: "move_type m = NORMAL"
    have u: "toUCI m = squareToString f @ squareToString t"
      using False n by (simp add: toUCI_def isNull_def isPromotion_def f_def t_def)
    have "fromUCI (toUCI m) = mkMove f t"
      using n nc fr tr sf st lf lt unfolding u fromUCI_def
      by (auto simp add: Let_def f_def t_def)
    also have "\<dots> = m"
      using encode_decode [of m] n pr by (simp add: mkMove_def f_def t_def)
    finally show ?thesis .
  next
    assume p: "move_type m = PROMOTION"
    define c where "c = (if promotionType m = PROMOTE_TO_QUEEN then CHR ''q''
               else if promotionType m = PROMOTE_TO_ROOK then CHR ''r''
               else if promotionType m = PROMOTE_TO_BISHOP then CHR ''b''
               else CHR ''n'')"
    have u: "toUCI m = squareToString f @ squareToString t @ [c]"
      using False p by (simp add: toUCI_def isNull_def isPromotion_def f_def t_def c_def)
    have pc: "promotionType m = 0 \<or> promotionType m = 1 \<or> promotionType m = 2 \<or> promotionType m = 3"
      using promotionType_range [of m] by arith
    have "fromUCI (toUCI m) = encodeMove f t PROMOTION (promotionType m)"
      using pc fr tr sf st lf lt unfolding u fromUCI_def
      by (auto simp add: Let_def c_def nth_append)
    also have "\<dots> = m"
      using encode_decode [of m] p by (simp add: f_def t_def)
    finally show ?thesis .
  qed
qed


theorem fromUCI_toUCI_witness:
  "fromUCI (toUCI (mkMove 12 28)) = mkMove 12 28"
proof -
  have a: "move_type (mkMove 12 28) = NORMAL" "promotionType (mkMove 12 28) = 0"
    "move_from (mkMove 12 28) = 12" "move_to (mkMove 12 28) = 28"
    by (simp_all add: mkMove_def encodeMove_def move_type_def promotionType_def move_from_def move_to_def)
  show ?thesis by (rule fromUCI_toUCI) (simp_all add: a)
qed


text \<open>As the claim states it, the round trip fails: a normal move from e1 to g1 (a rook or
  a queen moving there, say) is neither en passant nor castling, is written \<open>e1g1\<close>, and
  is read back as a castling move.\<close>

theorem fromUCI_toUCI_counterexample:
  "\<not> isEnPassant (mkMove E1 G1) \<and> \<not> isCastling (mkMove E1 G1) \<and>
   toUCI (mkMove E1 G1) = ''e1g1'' \<and>
   fromUCI (toUCI (mkMove E1 G1)) = encodeMove E1 G1 CASTLING PROMOTE_TO_QUEEN \<and>
   fromUCI (toUCI (mkMove E1 G1)) \<noteq> mkMove E1 G1"
  by (simp add: mkMove_def encodeMove_def isEnPassant_def isCastling_def move_type_def toUCI_def isNull_def
      isPromotion_def move_from_def move_to_def squareToString_def rf_eval to_char_def fromUCI_def
      stringToSquare_def code_def makeSquare_def Let_def char_of_def bit_0)

section \<open>The endgame switch\<close>

lemma popcount_nonneg: "0 \<le> popcount b"
  by (simp add: popcount_def)

lemma major_threshold:
  fixes qs rs :: int
  assumes "0 \<le> qs" "0 \<le> rs"
  shows "(qs * 900 + rs * 500 < 2000) =
         ((qs = 0 \<and> rs \<le> 3) \<or> (qs = 1 \<and> rs \<le> 2) \<or> (qs = 2 \<and> rs = 0))"
proof -
  consider "qs = 0" | "qs = 1" | "qs = 2" | "3 \<le> qs"
    using assms by linarith
  then show ?thesis
    using assms by cases auto
qed

text \<open>Claim C6 (amended). The endgame switch is on exactly when the value of the queens
  and rooks on the board, 900 for a queen and 500 for a rook, is below 2000: that is, with
  no queen and at most three rooks, one queen and at most two rooks, or two queens and no
  rook. Knights and bishops do not count.\<close>

theorem isEndgame_queens_and_rooks:
  "isEndgame p =
     ((popcount (getPieceBitboard p QUEEN WHITE) + popcount (getPieceBitboard p QUEEN BLACK))
        * 900 +
      (popcount (getPieceBitboard p ROOK WHITE) + popcount (getPieceBitboard p ROOK BLACK))
        * 500 < 2000) \<and>
   isEndgame p =
     (let queens = popcount (getPieceBitboard p QUEEN WHITE) +
                   popcount (getPieceBitboard p QUEEN BLACK);
          rooks = popcount (getPieceBitboard p ROOK WHITE) +
                  popcount (getPieceBitboard p ROOK BLACK)
      in (queens = 0 \<and> rooks \<le> 3) \<or> (queens = 1 \<and> rooks \<le> 2) \<or> (queens = 2 \<and> rooks = 0))"
proof -
  define qs where "qs = popcount (getPieceBitboard p QUEEN WHITE) +
                        popcount (getPieceBitboard p QUEEN BLACK)"
  define rs where "rs = popcount (getPieceBitboard p ROOK WHITE) +
                        popcount (getPieceBitboard p ROOK BLACK)"
  have nn: "0 \<le> qs" "0 \<le> rs"
    by (simp_all add: qs_def rs_def popcount_nonneg)
  have e: "isEndgame p = (qs * 900 + rs * 500 < 2000)"
    unfolding isEndgame_def qs_def rs_def by (simp add: distrib_right add.assoc)
  have d: "isEndgame p = ((qs = 0 \<and> rs \<le> 3) \<or> (qs = 1 \<and> rs \<le> 2) \<or> (qs = 2 \<and> rs = 0))"
    using e major_threshold [OF nn] by simp
  show ?thesis
    unfolding Let_def
    by (rule conjI) (rule e [unfolded qs_def rs_def], rule d [unfolded qs_def rs_def])
qed

text \<open>As the claim states it, with the knights and bishops counted, the equivalence fails
  on \<open>minorsPosition\<close>: the switch is on (one queen and two rooks, 1900), while the
  non-pawn, non-king material is 4500, neither below 2000 nor below the value of two rooks
  and two queens.\<close>

theorem isEndgame_counterexample:
  "isEndgame minorsPosition \<and>
   nonPawnNonKingMaterial minorsPosition = 4500 \<and>
   \<not> nonPawnNonKingMaterial minorsPosition < 2000 \<and>
   \<not> nonPawnNonKingMaterial minorsPosition < 2 * PieceValue_ROOK + 2 * PieceValue_QUEEN"
  by (simp add: isEndgame_def nonPawnNonKingMaterial_def minorsPosition_def
      getPieceBitboard_def popcount_def upt64)

section \<open>FEN round trip\<close>

lemma start_parse: "initializeFromFEN this STARTING_FEN = Some startPosition"
  by (cases this)
     (simp add: startPosition_def fen_eval char_eval board_eval cong: let_weak_cong)

lemma start_fen:
  "toFEN startPosition = ''krqpnqrk/bbbbbbbb/8/8/8/8/PPPPPPPP/RNBQKBNR w KQkq - 0 1''"
  by (simp add: startPosition_def fen_eval char_eval board_eval cong: let_weak_cong)

lemma start_back:
  "\<exists>r. initializeFromFEN this ''krqpnqrk/bbbbbbbb/8/8/8/8/PPPPPPPP/RNBQKBNR w KQkq - 0 1'' = Some r \<and>
        \<not> pos_eq r startPosition"
  by (cases this)
     (simp add: startPosition_def fen_eval char_eval board_eval pos_eq_def cong: let_weak_cong)

lemma typeOf_black:
  "typeOf (makePiece BLACK PAWN) = BISHOP" "typeOf (makePiece BLACK KNIGHT) = ROOK"
  "typeOf (makePiece BLACK BISHOP) = QUEEN" "typeOf (makePiece BLACK ROOK) = KING"
  "typeOf (makePiece BLACK QUEEN) = PAWN" "typeOf (makePiece BLACK KING) = KNIGHT"
  by (simp_all add: typeOf_def makePiece_def c_rem_def)

text \<open>Claim C1 (the code breaks it). On the starting position, which every constructor
  call \<open>Position()\<close> builds, \<open>toFEN\<close> writes the black pieces with the wrong letters,
  because \<open>typeOf\<close> maps the black piece codes 9..14 to the wrong types; the FEN it emits
  is not the starting FEN, and parsing it back gives a position that \<open>operator==\<close>
  distinguishes from the starting position.\<close>

theorem toFEN_start_roundtrip_fails:
  "(\<forall>this. initializeFromFEN this STARTING_FEN = Some startPosition) \<and>
   typeOf (makePiece BLACK PAWN) = BISHOP \<and>
   toFEN startPosition = ''krqpnqrk/bbbbbbbb/8/8/8/8/PPPPPPPP/RNBQKBNR w KQkq - 0 1'' \<and>
   toFEN startPosition \<noteq> STARTING_FEN \<and>
   (\<forall>this. \<exists>r. initializeFromFEN this (toFEN startPosition) = Some r \<and>
                 \<not> pos_eq r startPosition)"
proof (intro conjI allI)
  show "toFEN startPosition \<noteq> STARTING_FEN"
    by (simp add: start_fen STARTING_FEN_def)
  show "\<exists>r. initializeFromFEN this (toFEN startPosition) = Some r \<and> \<not> pos_eq r startPosition"
    for this
    unfolding start_fen by (rule start_back)
qed (simp_all only: start_parse start_fen typeOf_black)

section \<open>Castling rights after a move\<close>

lemma castleRooks_pseudo:
  "generatePseudoLegalMoves castleRooks = Some
     [56, 568, 1080, 1592, 2104, 2616, 3128, 3704, 3768, 3832, 511, 1023, 1535,
      2047, 2559, 3071, 3583, 3967, 4031, 3324, 3388, 3452, 3836, 3964, 53180, 52924]"
  by (simp add: castleRooks_def gen_eval board_eval move_eval cong: let_weak_cong)

lemma castleRooks_moves:
  "getPieceAt castleRooks E8 = makePiece BLACK KING"
  "map_option castlingRights (makeMove castleRooks (mkMove E8 52)) = Some 15"
  "getPieceAt castleRooks A8 = makePiece BLACK ROOK"
  "map_option castlingRights (makeMove castleRooks (mkMove A8 48)) = Some 3"
  by (simp_all add: castleRooks_def board_eval move_eval cong: let_weak_cong)

text \<open>Claim C4 (the code breaks it). In \<open>castleRooks\<close> the generator emits the black
  king's step e8-e7 and the rook's step a8-a7. After the king's step all four castling
  rights are still set, because \<open>typeOf\<close> reports the black king as a knight; after the
  rook's step from a8 both black rights are gone, not only the queenside one, because
  \<open>typeOf\<close> reports the black rook as a king.\<close>

theorem makeMove_black_castling_rights:
  "(\<exists>ms. generatePseudoLegalMoves castleRooks = Some ms \<and>
         mkMove E8 52 \<in> set ms \<and> mkMove A8 48 \<in> set ms) \<and>
   getPieceAt castleRooks E8 = makePiece BLACK KING \<and>
   typeOf (makePiece BLACK KING) = KNIGHT \<and>
   map_option castlingRights (makeMove castleRooks (mkMove E8 52)) =
     Some (WHITE_OO OR WHITE_OOO OR BLACK_OO OR BLACK_OOO) \<and>
   getPieceAt castleRooks A8 = makePiece BLACK ROOK \<and>
   typeOf (makePiece BLACK ROOK) = KING \<and>
   map_option castlingRights (makeMove castleRooks (mkMove A8 48)) =
     Some (WHITE_OO OR WHITE_OOO)"
proof -
  have m: "mkMove E8 52 = 3388" "mkMove A8 48 = 3128"
    by (simp_all add: move_eval)
  have r: "WHITE_OO OR WHITE_OOO OR BLACK_OO OR BLACK_OOO = (15 :: 8 word)"
    "WHITE_OO OR WHITE_OOO = (3 :: 8 word)"
    by simp_all
  have "\<exists>ms. generatePseudoLegalMoves castleRooks = Some ms \<and>
         mkMove E8 52 \<in> set ms \<and> mkMove A8 48 \<in> set ms"
    unfolding castleRooks_pseudo m by simp
  then show ?thesis
    unfolding r by (simp only: castleRooks_moves typeOf_black simp_thms)
qed

section \<open>Move ordering in the search\<close>

lemma epPosition_legal:
  "generateLegalMoves epPosition = Some
     [mkMove 36 44, encodeMove 36 45 EN_PASSANT 0,
      mkMove 21 6, mkMove 21 11, mkMove 21 15, mkMove 21 27, mkMove 21 31, mkMove 21 38,
      mkMove 4 3, mkMove 4 5, mkMove 4 11, mkMove 4 12, mkMove 4 13]"
  by (simp add: epPosition_def gen_eval board_eval move_eval cong: let_weak_cong)

lemma epPosition_order:
  "isEnPassant (encodeMove 36 45 EN_PASSANT 0)"
  "getPieceAt epPosition (move_to (encodeMove 36 45 EN_PASSANT 0)) = NO_PIECE"
  "getPieceAt epPosition (move_to (mkMove 21 38)) \<noteq> NO_PIECE"
  "isQuietMove epPosition (mkMove 36 44)"
  "captureFirst epPosition (mkMove 21 38) (encodeMove 36 45 EN_PASSANT 0)"
  "\<not> captureFirst epPosition (encodeMove 36 45 EN_PASSANT 0) (mkMove 21 38)"
  "\<not> captureFirst epPosition (encodeMove 36 45 EN_PASSANT 0) (mkMove 36 44)"
  by (simp_all add: epPosition_def captureFirst_def isCaptureMove_def isQuietMove_def
        board_eval move_eval cong: let_weak_cong)

text \<open>Claim C7 (the code breaks it). In \<open>epPosition\<close> the legal moves are, in generator
  order, the push e5-e6, the en-passant capture e5xf6, six knight moves ending with the
  capture Nxg5, and five king moves. The destination of the en-passant capture is empty,
  that of Nxg5 is occupied. The comparator given to \<open>std::sort\<close> treats the
  en-passant capture as a non-capture: it ranks Nxg5 strictly before e5xf6 and does not
  rank e5xf6 before the quiet e5-e6. So the order the claim describes, captures first in
  generator order (e5xf6, then Nxg5), is not sorted for this comparator.\<close>

theorem captureFirst_en_passant:
  "generateLegalMoves epPosition = Some
     [mkMove 36 44, encodeMove 36 45 EN_PASSANT 0,
      mkMove 21 6, mkMove 21 11, mkMove 21 15, mkMove 21 27, mkMove 21 31, mkMove 21 38,
      mkMove 4 3, mkMove 4 5, mkMove 4 11, mkMove 4 12, mkMove 4 13] \<and>
   isEnPassant (encodeMove 36 45 EN_PASSANT 0) \<and>
   getPieceAt epPosition (move_to (encodeMove 36 45 EN_PASSANT 0)) = NO_PIECE \<and>
   getPieceAt epPosition (move_to (mkMove 21 38)) \<noteq> NO_PIECE \<and>
   isQuietMove epPosition (mkMove 36 44) \<and>
   captureFirst epPosition (mkMove 21 38) (encodeMove 36 45 EN_PASSANT 0) \<and>
   \<not> captureFirst epPosition (encodeMove 36 45 EN_PASSANT 0) (mkMove 21 38) \<and>
   \<not> captureFirst epPosition (encodeMove 36 45 EN_PASSANT 0) (mkMove 36 44) \<and>
   \<not> sorted_wrt (\<lambda>a b. \<not> captureFirst epPosition b a)
        [encodeMove 36 45 EN_PASSANT 0, mkMove 21 38]"
  by (simp add: epPosition_legal epPosition_order)

section \<open>PGN move text\<close>

lemma rookCastle_parse:
  "initializeFromFEN this ''4k3/8/8/8/8/8/8/4K2R w K - 0 1'' = Some rookCastle"
  by (cases this)
     (simp add: rookCastle_def fen_eval char_eval board_eval cong: let_weak_cong)

lemma rookCastle_pseudo:
  "generatePseudoLegalMoves rookCastle = Some
     [mkMove 7 5, mkMove 7 6, mkMove 7 15, mkMove 7 23, mkMove 7 31, mkMove 7 39, mkMove 7 47,
      mkMove 7 55, mkMove 7 63, mkMove 4 3, mkMove 4 5, mkMove 4 11, mkMove 4 12, mkMove 4 13,
      encodeMove E1 G1 CASTLING 0]"
  by (simp add: rookCastle_def gen_eval board_eval move_eval cong: let_weak_cong)

lemma zero_castle_tokens:
  "tokenize (removeCommentsAndVariations ''0-0'') = [''0-0'']"
  "\<not> isResultToken ''0-0''"
  "parseAlgebraicMoveImpl rookCastle ''0-0'' = Some (encodeMove E1 G1 CASTLING 0)"
  "\<not> isNull (encodeMove E1 G1 CASTLING 0)"
  by (simp_all add: rookCastle_def pgn_eval char_eval move_eval)

text \<open>Claim C8 (the code breaks it). The token \<open>0-0\<close> is neither a move number ending
  with a dot nor a result token, and the SAN resolver reads it as kingside castling, a move
  the generator emits in \<open>rookCastle\<close>. The token loop skips it all the same, because its
  first character is a digit: the move text \<open>0-0\<close> yields no move and no error.\<close>

theorem parseMoveText_skips_castling:
  "tokenize (removeCommentsAndVariations ''0-0'') = [''0-0''] \<and>
   \<not> isResultToken ''0-0'' \<and> last ''0-0'' \<noteq> CHR ''.'' \<and>
   parseAlgebraicMoveImpl rookCastle ''0-0'' = Some (encodeMove E1 G1 CASTLING 0) \<and>
   \<not> isNull (encodeMove E1 G1 CASTLING 0) \<and>
   (\<exists>ms. generatePseudoLegalMoves rookCastle = Some ms \<and>
         encodeMove E1 G1 CASTLING 0 \<in> set ms) \<and>
   (\<forall>this. parseMoveText this ''0-0'' ''4k3/8/8/8/8/8/8/4K2R w K - 0 1'' [] = Some ([], []))"
  by (simp add: rookCastle_parse rookCastle_pseudo zero_castle_tokens parseMoveText_def
        isdigit_def firstChar_def code_def)

section \<open>Captures and quiet moves\<close>

lemma pawnDuel_pseudo:
  "generatePseudoLegalMoves pawnDuel = Some [2332, 2268, 196, 324, 708, 772, 836]"
  by (simp add: pawnDuel_def gen_eval board_eval move_eval cong: let_weak_cong)

lemma pawnDuel_filters:
  "filter (\<lambda>m. getPieceAt pawnDuel (move_to m) \<noteq> NO_PIECE \<or> isEnPassant m)
     [2332, 2268, 196, 324, 708, 772, 836] = [2268]"
  "filter (\<lambda>m. getPieceAt pawnDuel (move_to m) = NO_PIECE \<and> \<not> isEnPassant m)
     [2332, 2268, 196, 324, 708, 772, 836] = [2332, 196, 324, 708, 772, 836]"
  by (simp_all add: pawnDuel_def board_eval move_eval cong: let_weak_cong)

text \<open>Claim C9. Whenever the pseudo-legal generator returns a list \<open>ms\<close>,
  \<open>generateCaptures\<close> returns the moves of \<open>ms\<close> whose destination is occupied or that are
  en passant, \<open>generateQuietMoves\<close> returns those whose destination is empty and that are
  not en passant, both in the order of \<open>ms\<close>; the two lists together hold every move of
  \<open>ms\<close> as often as \<open>ms\<close> does, and no move is in both.\<close>

theorem captures_quiet_partition:
  assumes "generatePseudoLegalMoves p = Some ms"
  shows "\<exists>cs qs. generateCaptures p = Some cs \<and> generateQuietMoves p = Some qs \<and>
           cs = filter (\<lambda>m. getPieceAt p (move_to m) \<noteq> NO_PIECE \<or> isEnPassant m) ms \<and>
           qs = filter (\<lambda>m. getPieceAt p (move_to m) = NO_PIECE \<and> \<not> isEnPassant m) ms \<and>
           mset cs + mset qs = mset ms \<and> set cs \<inter> set qs = {}"
proof -
  let ?cap = "\<lambda>m. getPieceAt p (move_to m) \<noteq> NO_PIECE \<or> isEnPassant m"
  have q: "isQuietMove p = (\<lambda>m. \<not> ?cap m)"
    by (auto simp: isQuietMove_def)
  have c: "isCaptureMove p = ?cap"
    by (auto simp: isCaptureMove_def)
  have "mset (filter ?cap ms) + mset (filter (\<lambda>m. \<not> ?cap m) ms) = mset ms"
    by simp
  moreover have "set (filter ?cap ms) \<inter> set (filter (\<lambda>m. \<not> ?cap m) ms) = {}"
    by auto
  ultimately show ?thesis
    using assms by (simp add: generateCaptures_def generateQuietMoves_def q c)
qed

theorem captures_quiet_partition_witness:
  "generatePseudoLegalMoves pawnDuel = Some [2332, 2268, 196, 324, 708, 772, 836] \<and>
   generateCaptures pawnDuel = Some [2268] \<and>
   generateQuietMoves pawnDuel = Some [2332, 196, 324, 708, 772, 836]"
proof -
  from captures_quiet_partition [OF pawnDuel_pseudo] obtain cs qs where
    "generateCaptures pawnDuel = Some cs" "generateQuietMoves pawnDuel = Some qs"
    "cs = filter (\<lambda>m. getPieceAt pawnDuel (move_to m) \<noteq> NO_PIECE \<or> isEnPassant m)
            [2332, 2268, 196, 324, 708, 772, 836]"
    "qs = filter (\<lambda>m. getPieceAt pawnDuel (move_to m) = NO_PIECE \<and> \<not> isEnPassant m)
            [2332, 2268, 196, 324, 708, 772, 836]"
    by blast
  then show ?thesis
    unfolding pawnDuel_filters by (simp only: pawnDuel_pseudo simp_thms)
qed

section \<open>Shape of the generated moves\<close>

lemma squaresOf_range: "s \<in> set (squaresOf b) \<Longrightarrow> 0 \<le> s \<and> s < 64"
  by (auto simp: squaresOf_def)

lemma squaresOf_bit: "s \<in> set (squaresOf b) \<Longrightarrow> bit b (nat s)"
  by (auto simp: squaresOf_def)

lemma lsb_range: "lsb b = Some s \<Longrightarrow> 0 \<le> s \<and> s < 64"
  by (auto simp: lsb_def find_Some_iff)

lemma lsb_bit: "lsb b = Some s \<Longrightarrow> bit b (nat s)"
  by (auto simp: lsb_def find_Some_iff)

lemma small_int_no_bit:
  fixes x :: int
  assumes "0 \<le> x" "x < 2 ^ k" "k \<le> n"
  shows "\<not> bit x n"
proof -
  have "x < 2 ^ n"
    using assms by (meson less_le_trans one_le_numeral power_increasing)
  then have "x div 2 ^ n = 0" using assms(1) by simp
  then show ?thesis by (simp add: bit_iff_odd)
qed

lemma small_nat_no_bit:
  fixes x :: nat
  assumes "x < 2 ^ k" "k \<le> n"
  shows "\<not> bit x n"
proof -
  have "x < 2 ^ n"
    using assms by (meson less_le_trans one_le_numeral power_increasing)
  then have "x div 2 ^ n = 0" by simp
  then show ?thesis by (simp add: bit_iff_odd)
qed

lemma move_type_encode:
  assumes "0 \<le> f" "f < 64" "0 \<le> t" "t < 64" "ty < 4" "pr < 4"
  shows "move_type (encodeMove f t ty pr) = ty"
proof -
  have f: "\<And>n. 6 \<le> n \<Longrightarrow> \<not> bit f n"
    using small_int_no_bit [of f 6] assms by simp
  have t: "\<And>n. 6 \<le> n \<Longrightarrow> \<not> bit t n"
    using small_int_no_bit [of t 6] assms by simp
  have p: "\<And>n. 2 \<le> n \<Longrightarrow> \<not> bit pr n"
    using small_nat_no_bit [of pr 2] assms by simp
  have y: "\<And>n. 2 \<le> n \<Longrightarrow> \<not> bit ty n"
    using small_nat_no_bit [of ty 2] assms by simp
  have "drop_bit 14 (encodeMove f t ty pr) AND mask 2 = (of_nat ty :: 16 word)"
  proof (rule bit_word_eqI)
    fix n assume "n < LENGTH(16)"
    then show "bit (drop_bit 14 (encodeMove f t ty pr) AND mask 2) n = bit (of_nat ty :: 16 word) n"
      using f [of "14 + n"] t [of "8 + n"] p [of "2 + n"] y [of n]
      by (cases "n < 2") (auto simp add: encodeMove_def bit_simps)
  qed
  then have "move_type (encodeMove f t ty pr) = unat (of_nat ty :: 16 word)"
    by (simp add: move_type_def move_masks)
  also have "\<dots> = ty"
    using assms by (simp add: unat_of_nat)
  finally show ?thesis .
qed

lemma move_from_encode:
  assumes "0 \<le> f" "f < 64"
  shows "move_from (encodeMove f t ty pr) = f"
proof -
  have f: "\<And>n. 6 \<le> n \<Longrightarrow> \<not> bit f n"
    using small_int_no_bit [of f 6] assms by simp
  have "uint (encodeMove f t ty pr AND mask 6) = f"
  proof (rule bit_eqI)
    fix n
    show "bit (uint (encodeMove f t ty pr AND mask 6)) n = bit f n"
      using f [of n] by (cases "n < 6") (auto simp add: encodeMove_def bit_simps)
  qed
  then show ?thesis by (simp add: move_from_def move_masks)
qed

lemma encode_nonzero:
  assumes "0 \<le> f" "f < 64" "0 \<le> t" "t < 64" "ty < 4" "pr < 4"
    and "f \<noteq> 0 \<or> ty \<noteq> 0"
  shows "encodeMove f t ty pr \<noteq> 0"
proof
  assume z: "encodeMove f t ty pr = 0"
  have "move_from (encodeMove f t ty pr) = f" "move_type (encodeMove f t ty pr) = ty"
    using assms by (simp_all add: move_from_encode move_type_encode)
  then have "f = 0" "ty = 0"
    unfolding z by (simp_all add: move_from_def move_type_def)
  with assms(7) show False by simp
qed

lemma move_to_encode:
  assumes "0 \<le> f" "f < 64" "0 \<le> t" "t < 64"
  shows "move_to (encodeMove f t ty pr) = t"
proof -
  have f: "\<And>n. 6 \<le> n \<Longrightarrow> \<not> bit f n"
    using small_int_no_bit [of f 6] assms by simp
  have t: "\<And>n. 6 \<le> n \<Longrightarrow> \<not> bit t n"
    using small_int_no_bit [of t 6] assms by simp
  have "uint (drop_bit 6 (encodeMove f t ty pr) AND mask 6) = t"
  proof (rule bit_eqI)
    fix n
    show "bit (uint (drop_bit 6 (encodeMove f t ty pr) AND mask 6)) n = bit t n"
      using f [of "6 + n"] t [of n] by (cases "n < 6") (auto simp add: encodeMove_def bit_simps)
  qed
  then show ?thesis by (simp add: move_to_def move_masks)
qed

lemma mkMove_nonzero:
  assumes "0 \<le> f" "f < 64" "0 \<le> t" "t < 64" "f \<noteq> t"
  shows "mkMove f t \<noteq> 0"
proof
  assume z: "mkMove f t = 0"
  have "move_from (mkMove f t) = f" "move_to (mkMove f t) = t"
    using assms by (simp_all add: mkMove_def move_from_encode move_to_encode)
  then have "f = 0" "t = 0"
    unfolding z by (simp_all add: move_from_def move_to_def)
  with assms(5) show False by simp
qed

lemma mkMove_type:
  assumes "0 \<le> f" "f < 64" "0 \<le> t" "t < 64"
  shows "move_type (mkMove f t) = NORMAL"
  using assms by (simp add: mkMove_def move_type_encode)

lemma and_squareBB: "(b AND squareBB s \<noteq> 0) = bit b (nat s)"
  by (simp add: squareBB_def push_bit_of_1 and_exp_eq_0_iff_not_bit)

lemma and_squareBB_0: "(b AND squareBB s = 0) = (\<not> bit b (nat s))"
  using and_squareBB [of b s] by blast

lemma squareBB_and: "(squareBB s AND b \<noteq> 0) = bit b (nat s)"
  by (simp add: and.commute and_squareBB)

lemma rank_masks:
  "(0xFF00 :: 64 word) = push_bit 8 (mask 8)"
  "(0x00FF000000000000 :: 64 word) = push_bit 48 (mask 8)"
  by (simp_all add: mask_eq_exp_minus_1 push_bit_eq_mult)

lemma rank2_bits:
  "bit (0xFF00 :: 64 word) n \<Longrightarrow> 8 \<le> n \<and> n < 16"
  "bit (0x00FF000000000000 :: 64 word) n \<Longrightarrow> 48 \<le> n \<and> n < 56"
  unfolding rank_masks by (auto simp add: bit_simps)

lemma pawnAttacks_not_self: "0 \<le> f \<Longrightarrow> \<not> bit (pawnAttacks us f) (nat f)"
  by (auto simp add: pawnAttacks_def squareBB_def Let_def bit_simps)

lemma promotions_shape:
  assumes "0 \<le> f" "f < 64" "0 \<le> t" "t < 64" "m \<in> set (promotions f t)"
  shows "move_type m = PROMOTION \<and> m \<noteq> 0"
  using assms by (auto simp add: promotions_def move_type_encode encode_nonzero)

lemma pawnCapture_shape:
  assumes "0 \<le> f" "f < 64" "0 \<le> t" "t < 64" "f \<noteq> t" "m \<in> set (pawnCapture b f t)"
  shows "move_type m \<noteq> CASTLING \<and> m \<noteq> 0"
  using assms promotions_shape [of f t m]
  by (auto simp add: pawnCapture_def mkMove_type mkMove_nonzero split: if_splits)

lemma pawn_shape:
  assumes g: "pawnMovesFrom p us theirPieces occupied f = Some xs"
    and f: "0 \<le> f" "f < 64" and m: "m \<in> set xs"
  shows "move_type m \<noteq> CASTLING \<and> m \<noteq> 0"
proof -
  define t where "t = f + (if us = WHITE then 8 else -8)"
  define d where "d = f + (if us = WHITE then 16 else -16)"
  define rank2 :: Bitboard where "rank2 = (if us = WHITE then 0xFF00 else 0x00FF000000000000)"
  define rank7 :: Bitboard where "rank7 = (if us = WHITE then 0x00FF000000000000 else 0xFF00)"
  define ep where "ep = enPassantSquare p"
  have t: "0 \<le> t" "t < 64" "t \<noteq> f"
    using g by (auto simp add: pawnMovesFrom_def Let_def t_def split: if_splits)
  have epr: "ep \<noteq> -1 \<Longrightarrow> 0 \<le> ep \<and> ep < 64"
    using g by (auto simp add: pawnMovesFrom_def Let_def ep_def split: if_splits)
  have d: "squareBB f AND rank2 \<noteq> 0 \<Longrightarrow> 0 \<le> d \<and> d < 64 \<and> d \<noteq> f"
    using f rank2_bits [of "nat f"]
    by (auto simp add: squareBB_and rank2_def d_def split: if_splits)
  from g m consider
      (push) "m \<in> set (promotions f t)"
    | (single) "m = mkMove f t"
    | (double) "m = mkMove f d" "squareBB f AND rank2 \<noteq> 0"
    | (capture) c where "c \<in> set (squaresOf (pawnAttacks us f AND theirPieces))"
         "m \<in> set (pawnCapture (squareBB f AND rank7 \<noteq> 0) f c)"
    | (enpassant) "m = encodeMove f ep EN_PASSANT PROMOTE_TO_QUEEN" "ep \<noteq> -1"
    unfolding pawnMovesFrom_def Let_def t_def d_def rank2_def rank7_def ep_def
    by (auto split: if_splits)
  then show ?thesis
  proof cases
    case push
    then show ?thesis using promotions_shape [of f t m] f t by simp
  next
    case single
    then show ?thesis using f t by (simp add: mkMove_type mkMove_nonzero)
  next
    case double
    then show ?thesis using f d by (simp add: mkMove_type mkMove_nonzero)
  next
    case capture
    have "0 \<le> c \<and> c < 64" using capture(1) by (rule squaresOf_range)
    moreover have "bit (pawnAttacks us f) (nat c)"
      using squaresOf_bit [OF capture(1)] by (simp add: bit_and_iff)
    then have "f \<noteq> c" using pawnAttacks_not_self [of f us] f by auto
    ultimately show ?thesis using pawnCapture_shape [of f c m] f capture(2) by simp
  next
    case enpassant
    then show ?thesis using f epr by (simp add: move_type_encode encode_nonzero)
  qed
qed

lemma collect_member:
  assumes "collect g xs = Some ys" "m \<in> set ys"
  shows "\<exists>x zs. x \<in> set xs \<and> g x = Some zs \<and> m \<in> set zs"
  using assms
proof (induction xs arbitrary: ys)
  case Nil
  then show ?case by simp
next
  case (Cons x xs)
  then show ?case by (fastforce split: option.splits)
qed

lemma colorBB_unfold:
  "getColorBitboard p c =
     getPieceBitboard p PAWN c OR getPieceBitboard p KNIGHT c OR getPieceBitboard p BISHOP c OR
     getPieceBitboard p ROOK c OR getPieceBitboard p QUEEN c OR getPieceBitboard p KING c"
  by (simp add: getColorBitboard_def getPieceBitboard_def upt6 ac_simps)

lemma colorBB_bit:
  assumes "pt < 6" "bit (getPieceBitboard p pt c) n"
  shows "bit (getColorBitboard p c) n"
proof -
  from assms(1) consider "pt = 0" | "pt = 1" | "pt = 2" | "pt = 3" | "pt = 4" | "pt = 5"
    by linarith
  then show ?thesis
    using assms(2) by cases (simp_all add: colorBB_unfold bit_or_iff)
qed

lemma occupied_eq:
  "getColorBitboard p us OR getColorBitboard p (opp us) = getOccupiedBitboard p"
  by (cases us) (simp_all add: getOccupiedBitboard_def or.commute)

lemma generatePawnMoves_shape:
  assumes "generatePawnMoves p us theirPieces occupied = Some xs" "m \<in> set xs"
  shows "move_type m \<noteq> CASTLING \<and> m \<noteq> 0"
proof -
  from collect_member [OF assms [unfolded generatePawnMoves_def]]
  obtain f zs where f: "f \<in> set (squaresOf (getPieceBitboard p PAWN us))"
    and z: "pawnMovesFrom p us theirPieces occupied f = Some zs" "m \<in> set zs"
    by blast
  show ?thesis
    using pawn_shape [OF z(1) _ _ z(2)] squaresOf_range [OF f] by simp
qed

lemma generatePieceMoves_shape:
  assumes m: "m \<in> set (generatePieceMoves PT p us ourPieces occupied)"
    and o: "\<And>n. bit (getPieceBitboard p PT us) n \<Longrightarrow> bit ourPieces n"
  shows "move_type m \<noteq> CASTLING \<and> m \<noteq> 0"
proof -
  from m obtain f t where f: "f \<in> set (squaresOf (getPieceBitboard p PT us))"
    and t: "t \<in> set (squaresOf (getAttacks PT f occupied AND NOT ourPieces))"
    and e: "m = mkMove f t"
    by (auto simp add: generatePieceMoves_def pieceMovesFrom_def)
  have fr: "0 \<le> f \<and> f < 64" and tr: "0 \<le> t \<and> t < 64"
    using f t by (simp_all add: squaresOf_range)
  have "bit ourPieces (nat f)"
    using squaresOf_bit [OF f] by (rule o)
  moreover have "\<not> bit ourPieces (nat t)"
    using squaresOf_bit [OF t] by (simp add: bit_and_iff bit_not_iff)
  ultimately have "f \<noteq> t" by auto
  then show ?thesis
    using fr tr by (simp add: e mkMove_type mkMove_nonzero)
qed

lemma generateKingMoves_shape:
  assumes g: "generateKingMoves p us ourPieces = Some xs" and m: "m \<in> set xs"
    and o: "\<And>n. bit (getPieceBitboard p KING us) n \<Longrightarrow> bit ourPieces n"
  shows "move_type m \<noteq> CASTLING \<and> m \<noteq> 0"
proof -
  from g m obtain k t where k: "lsb (getPieceBitboard p KING us) = Some k"
    and t: "t \<in> set (squaresOf (kingAttacks k AND NOT ourPieces))"
    and e: "m = mkMove k t"
    by (auto simp add: generateKingMoves_def split: option.splits)
  have kr: "0 \<le> k \<and> k < 64" and tr: "0 \<le> t \<and> t < 64"
    using k t by (simp_all add: squaresOf_range lsb_range)
  have "bit ourPieces (nat k)"
    using lsb_bit [OF k] by (rule o)
  moreover have "\<not> bit ourPieces (nat t)"
    using squaresOf_bit [OF t] by (simp add: bit_and_iff bit_not_iff)
  ultimately have "k \<noteq> t" by auto
  then show ?thesis
    using kr tr by (simp add: e mkMove_type mkMove_nonzero)
qed

lemma castle_codes:
  "encodeMove E1 G1 CASTLING PROMOTE_TO_QUEEN = 49540"
  "encodeMove E1 C1 CASTLING PROMOTE_TO_QUEEN = 49284"
  "encodeMove E8 G8 CASTLING PROMOTE_TO_QUEEN = 53180"
  "encodeMove E8 C8 CASTLING PROMOTE_TO_QUEEN = 52924"
  "move_type 49540 = CASTLING" "move_type 49284 = CASTLING"
  "move_type 53180 = CASTLING" "move_type 52924 = CASTLING"
  by (simp_all add: encodeMove_def move_type_def)

lemma generateCastlingMoves_shape:
  assumes "generateCastlingMoves p us occupied = Some xs" "m \<in> set xs"
  shows "move_type m = CASTLING \<and> m \<noteq> 0"
  using assms
  by (auto simp add: generateCastlingMoves_def Let_def castle_codes
      split: option.splits bool.splits if_splits)

text \<open>The list the generator returns, by its parts.\<close>

lemma generateAllMoves_parts:
  assumes "generatePseudoLegalMoves p = Some ms"
  shows "\<exists>pm km cm.
     generatePawnMoves p (sideToMove p) (getColorBitboard p (opp (sideToMove p)))
        (getOccupiedBitboard p) = Some pm \<and>
     generateKingMoves p (sideToMove p) (getColorBitboard p (sideToMove p)) = Some km \<and>
     generateCastlingMoves p (sideToMove p) (getOccupiedBitboard p) = Some cm \<and>
     ms = pm @
          generatePieceMoves KNIGHT p (sideToMove p) (getColorBitboard p (sideToMove p)) (getOccupiedBitboard p) @
          generatePieceMoves BISHOP p (sideToMove p) (getColorBitboard p (sideToMove p)) (getOccupiedBitboard p) @
          generatePieceMoves ROOK p (sideToMove p) (getColorBitboard p (sideToMove p)) (getOccupiedBitboard p) @
          generatePieceMoves QUEEN p (sideToMove p) (getColorBitboard p (sideToMove p)) (getOccupiedBitboard p) @
          km @ cm"
  using assms
  by (auto simp add: generatePseudoLegalMoves_def generateAllMoves_def Let_def occupied_eq
      split: option.splits)


lemma pseudo_nonnull:
  assumes "generatePseudoLegalMoves p = Some ms" "m \<in> set ms"
  shows "m \<noteq> 0"
proof -
  from generateAllMoves_parts [OF assms(1)] obtain pm km cm where
    pm: "generatePawnMoves p (sideToMove p) (getColorBitboard p (opp (sideToMove p)))
        (getOccupiedBitboard p) = Some pm"
    and km: "generateKingMoves p (sideToMove p) (getColorBitboard p (sideToMove p)) = Some km"
    and cm: "generateCastlingMoves p (sideToMove p) (getOccupiedBitboard p) = Some cm"
    and ms: "ms = pm @
          generatePieceMoves KNIGHT p (sideToMove p) (getColorBitboard p (sideToMove p)) (getOccupiedBitboard p) @
          generatePieceMoves BISHOP p (sideToMove p) (getColorBitboard p (sideToMove p)) (getOccupiedBitboard p) @
          generatePieceMoves ROOK p (sideToMove p) (getColorBitboard p (sideToMove p)) (getOccupiedBitboard p) @
          generatePieceMoves QUEEN p (sideToMove p) (getColorBitboard p (sideToMove p)) (getOccupiedBitboard p) @
          km @ cm"
    by blast
  have a: "0 \<notin> set pm"
    using generatePawnMoves_shape [OF pm] by blast
  have b: "\<And>PT. PT < 6 \<Longrightarrow>
        0 \<notin> set (generatePieceMoves PT p (sideToMove p) (getColorBitboard p (sideToMove p))
                   (getOccupiedBitboard p))"
  proof
    fix PT :: nat assume pt: "PT < 6"
      and mem: "0 \<in> set (generatePieceMoves PT p (sideToMove p) (getColorBitboard p (sideToMove p))
                   (getOccupiedBitboard p))"
    have "move_type 0 \<noteq> CASTLING \<and> (0 :: Move) \<noteq> 0"
      by (rule generatePieceMoves_shape [OF mem]) (rule colorBB_bit [OF pt])
    then show False by simp
  qed
  have c: "0 \<notin> set km"
  proof
    assume mem: "0 \<in> set km"
    have "move_type 0 \<noteq> CASTLING \<and> (0 :: Move) \<noteq> 0"
      by (rule generateKingMoves_shape [OF km mem]) (rule colorBB_bit [of KING], simp_all)
    then show False by simp
  qed
  have d: "0 \<notin> set cm"
    using generateCastlingMoves_shape [OF cm] by blast
  have "0 \<notin> set ms"
    unfolding ms using a b [of KNIGHT] b [of BISHOP] b [of ROOK] b [of QUEEN] c d by simp
  then show ?thesis
    using assms(2) by blast
qed

section \<open>Castling generation\<close>

lemma and_or_zero:
  fixes x :: "'a::len word"
  shows "(x AND (a OR b) = 0) = (x AND a = 0 \<and> x AND b = 0)"
  by (simp add: bit.conj_disj_distrib or_eq_0_iff)


lemma rights_side:
  fixes cr :: "8 word"
  shows "cr AND WHITE_OO \<noteq> 0 \<Longrightarrow> cr AND (WHITE_OO OR WHITE_OOO) \<noteq> 0"
    "cr AND WHITE_OOO \<noteq> 0 \<Longrightarrow> cr AND (WHITE_OO OR WHITE_OOO) \<noteq> 0"
    "cr AND BLACK_OO \<noteq> 0 \<Longrightarrow> cr AND (BLACK_OO OR BLACK_OOO) \<noteq> 0"
    "cr AND BLACK_OOO \<noteq> 0 \<Longrightarrow> cr AND (BLACK_OO OR BLACK_OOO) \<noteq> 0"
  using and_or_zero [of cr] by blast+










text \<open>Positions that break the invariant are inputs of the program: \<open>initializeFromFEN\<close>
  takes the castling field as it is written, and \<open>makeMove\<close> keeps both black rights when
  black castles. From \<open>beforeKingAway\<close> the two moves e8-g8 (castling) and Rd1-e1 lead to
  \<open>kingAway\<close>, apart from the clocks and the hash.\<close>

lemma kingAway_parse:
  "initializeFromFEN this ''r4rk1/8/8/8/8/8/8/1K2R3 b kq - 0 1'' = Some kingAway"
  by (cases this)
     (simp add: kingAway_def fen_eval char_eval board_eval cong: let_weak_cong)

lemma rooklessCastle_parse:
  "initializeFromFEN this ''4k3/8/8/8/8/8/8/4K3 w K - 0 1'' = Some rooklessCastle"
  by (cases this)
     (simp add: rooklessCastle_def fen_eval char_eval board_eval cong: let_weak_cong)

lemma kingAway_reached:
  "makeMove beforeKingAway (encodeMove E8 G8 CASTLING PROMOTE_TO_QUEEN) = Some
     \<lparr>pieceBitboards =
        [[0, 0, 0, 0x08, 0, 0x02],
         [0, 0, 0, 0x2100000000000000, 0, 0x4000000000000000]],
      sideToMove = WHITE, castlingRights = 12, enPassantSquare = NO_SQUARE,
      halfmoveClock = 1, fullmoveNumber = 2, zobristHash = 1\<rparr>"
  "makeMove
     \<lparr>pieceBitboards =
        [[0, 0, 0, 0x08, 0, 0x02],
         [0, 0, 0, 0x2100000000000000, 0, 0x4000000000000000]],
      sideToMove = WHITE, castlingRights = 12, enPassantSquare = NO_SQUARE,
      halfmoveClock = 1, fullmoveNumber = 2, zobristHash = 1\<rparr> (mkMove D1 E1) =
   Some (kingAway\<lparr>halfmoveClock := 2, fullmoveNumber := 2, zobristHash := 2\<rparr>)"
  by (simp_all add: beforeKingAway_def kingAway_def board_eval move_eval cong: let_weak_cong)






section \<open>The best move\<close>

lemma keepIfLegal_member: "keepIfLegal p x = Some zs \<Longrightarrow> m \<in> set zs \<Longrightarrow> m = x"
  by (auto simp add: keepIfLegal_def split: option.splits if_splits)

lemma legal_pseudo:
  assumes "generateLegalMoves p = Some ls" "m \<in> set ls"
  shows "\<exists>ms. generatePseudoLegalMoves p = Some ms \<and> m \<in> set ms"
proof -
  from assms(1) obtain ms where ms: "generatePseudoLegalMoves p = Some ms"
    and c: "collect (keepIfLegal p) ms = Some ls"
    by (auto simp add: generateLegalMoves_def split: option.splits)
  from collect_member [OF c assms(2)] obtain x zs where
    "x \<in> set ms" "keepIfLegal p x = Some zs" "m \<in> set zs"
    by blast
  then have "m \<in> set ms" using keepIfLegal_member by blast
  with ms show ?thesis by blast
qed

lemma legal_nonnull:
  assumes "generateLegalMoves p = Some ls" "m \<in> set ls"
  shows "m \<noteq> 0"
  using legal_pseudo [OF assms] pseudo_nonnull by blast

lemma legal_defined_check:
  assumes "generateLegalMoves p = Some ls"
  shows "\<exists>c. isInCheck p = Some c"
proof -
  from assms obtain ms where "generatePseudoLegalMoves p = Some ms"
    by (auto simp add: generateLegalMoves_def split: option.splits)
  from generateAllMoves_parts [OF this] obtain cm where
    "generateCastlingMoves p (sideToMove p) (getOccupiedBitboard p) = Some cm"
    by blast
  then show ?thesis
    by (auto simp add: generateCastlingMoves_def split: option.splits)
qed

lemma searchLoop_move:
  assumes "searchLoop rec pos ms best alpha beta = Some r"
  shows "move r = move best \<or> move r \<in> set ms"
  using assms
proof (induction ms arbitrary: best alpha)
  case Nil
  then show ?case by simp
next
  case (Cons m ms)
  from Cons.prems obtain newPos result where
    mk: "makeMove pos m = Some newPos" and rc: "rec newPos (- beta) (- alpha) = Some result"
    by (auto split: option.splits)
  define best1 where
    "best1 = (if - score result > score best then \<lparr>move = m, score = - score result\<rparr> else best)"
  have b1: "move best1 = move best \<or> move best1 = m"
    by (simp add: best1_def)
  show ?case
  proof (cases "max alpha (- score result) \<ge> beta")
    case True
    then have "r = best1"
      using Cons.prems mk rc by (simp add: best1_def Let_def)
    then show ?thesis using b1 by auto
  next
    case False
    then have "searchLoop rec pos ms best1 (max alpha (- score result)) beta = Some r"
      using Cons.prems mk rc by (simp add: best1_def Let_def)
    from Cons.IH [OF this] show ?thesis using b1 by auto
  qed
qed

lemma insertBy_mset: "mset (insertBy lt x ys) = add_mset x (mset ys)"
  by (induction ys) simp_all

lemma insertionSort_mset: "mset (insertionSort lt xs) = mset xs"
  by (induction xs) (simp_all add: insertionSort_def insertBy_mset)

text \<open>What \<open>findBestMove\<close> returns follows the list that \<open>generateLegalMoves\<close> returns:
  the null move when the list is empty, and a move of the list, never the null move,
  when it is not (for a \<open>std::sort\<close> that returns a permutation of its input).\<close>

lemma findBestMove_empty_list:
  assumes depth: "1 \<le> depth" and ls: "generateLegalMoves pos = Some []"
  shows "findBestMove ev srt pos depth = Some NULL_MOVE"
proof -
  from depth obtain d where d: "nat depth = Suc d" and nn: "\<not> depth < 0"
    by (cases "nat depth") auto
  from legal_defined_check [OF ls] obtain c where "isInCheck pos = Some c" by blast
  then show ?thesis using ls nn by (simp add: findBestMove_def d)
qed

lemma findBestMove_listed_move:
  assumes srt: "\<And>lt xs. mset (srt lt xs) = mset xs"
    and depth: "1 \<le> depth"
    and ls: "generateLegalMoves pos = Some (m0 # ls)"
  shows "findBestMove ev srt pos depth \<noteq> Some NULL_MOVE"
proof
  assume r: "findBestMove ev srt pos depth = Some NULL_MOVE"
  from depth obtain d where d: "nat depth = Suc d" and nn: "\<not> depth < 0"
    by (cases "nat depth") auto
  have fb: "findBestMove ev srt pos depth =
            map_option move (search ev srt (Suc d) pos (- INT_MAX) INT_MAX)"
    using nn by (simp add: findBestMove_def d)
  from r obtain res where
    sl: "searchLoop (search ev srt d) pos (srt (captureFirst pos) (m0 # ls))
           \<lparr>move = m0, score = - INT_MAX\<rparr> (- INT_MAX) INT_MAX = Some res"
    and m: "NULL_MOVE = move res"
    using ls by (auto simp add: fb)
  have "set (srt (captureFirst pos) (m0 # ls)) = set (m0 # ls)"
    using srt [of "captureFirst pos" "m0 # ls"] by (rule mset_eq_setD)
  with searchLoop_move [OF sl] have "NULL_MOVE \<in> set (m0 # ls)"
    by (auto simp add: m)
  then show False
    using legal_nonnull [OF ls] by (auto simp add: NULL_MOVE_def)
qed

lemma matedPosition_parse:
  "initializeFromFEN this ''6k1/8/8/8/8/8/6PP/4r2K w - - 0 1'' = Some matedPosition"
  by (cases this)
     (simp add: matedPosition_def fen_eval char_eval board_eval cong: let_weak_cong)

lemma matedPosition_pseudo:
  "generatePseudoLegalMoves matedPosition = Some [1422, 1934, 1487, 1999, 391]"
  by (simp add: matedPosition_def gen_eval board_eval move_eval cong: let_weak_cong)

lemma matedPosition_legal:
  "generateLegalMoves matedPosition = Some [1422, 1934, 1487, 1999, 391]"
  by (simp add: matedPosition_def gen_eval board_eval move_eval cong: let_weak_cong)

lemma matedPosition_facts:
  "isInCheck matedPosition = Some True"
  "ownKingSafeAfter matedPosition 1422 = Some False"
  "ownKingSafeAfter matedPosition 1934 = Some False"
  "ownKingSafeAfter matedPosition 1487 = Some False"
  "ownKingSafeAfter matedPosition 1999 = Some False"
  "ownKingSafeAfter matedPosition 391 = Some False"
  by (simp_all add: matedPosition_def ownKingSafeAfter_def board_eval move_eval
      cong: let_weak_cong)

lemma matedPosition_sorted:
  "insertionSort (captureFirst matedPosition) [1422, 1934, 1487, 1999, 391] =
     [1422, 1934, 1487, 1999, 391]"
  by (simp add: insertionSort_def captureFirst_def matedPosition_def board_eval move_eval
      cong: let_weak_cong)

lemma matedPosition_search:
  "findBestMove (\<lambda>_. Some 0) insertionSort matedPosition 1 = Some 1422"
  by (simp add: findBestMove_def matedPosition_legal matedPosition_sorted)
     (simp add: matedPosition_def board_eval move_eval cong: let_weak_cong)

lemma matedPosition_never_null:
  "findBestMove ev insertionSort matedPosition (int (Suc d)) \<noteq> Some NULL_MOVE"
  by (rule findBestMove_listed_move [OF insertionSort_mset _ matedPosition_legal]) simp

lemma onlyCheckPosition_parse:
  "initializeFromFEN this ''8/8/1p6/1P6/B7/pP6/P1k5/K7 w - - 0 1'' = Some onlyCheckPosition"
  by (cases this)
     (simp add: onlyCheckPosition_def fen_eval char_eval board_eval cong: let_weak_cong)

lemma onlyCheckPosition_pseudo:
  "generatePseudoLegalMoves onlyCheckPosition = Some [1617, 64, 576]"
  by (simp add: onlyCheckPosition_def gen_eval board_eval move_eval cong: let_weak_cong)

lemma onlyCheckPosition_legal:
  "generateLegalMoves onlyCheckPosition = Some []"
  by (simp add: onlyCheckPosition_def gen_eval board_eval move_eval cong: let_weak_cong)

lemma onlyCheckPosition_facts:
  "isInCheck onlyCheckPosition = Some False"
  "ownKingSafeAfter onlyCheckPosition 1617 = Some True"
  "keepIfLegal onlyCheckPosition 1617 = Some []"
  by (simp_all add: onlyCheckPosition_def ownKingSafeAfter_def keepIfLegal_def board_eval
      move_eval cong: let_weak_cong)

lemma onlyCheckPosition_always_null:
  "findBestMove ev srt onlyCheckPosition (int (Suc d)) = Some NULL_MOVE"
  by (rule findBestMove_empty_list [OF _ onlyCheckPosition_legal]) simp

text \<open>Claim C2 (the code breaks it). The legal filter asks \<open>newPos.isInCheck()\<close> after
  \<open>makeMove\<close> has passed the turn, so it tests the king of the side that did not move,
  and \<open>findBestMove\<close> follows the list this filter leaves. In \<open>matedPosition\<close> white is in
  check and each of its five pseudo-legal moves (g2-g3, g2-g4, h2-h3, h2-h4, Kh1-g1)
  leaves the white king attacked: white has no legal move. The filter keeps all five, and
  \<open>findBestMove\<close> returns a move that is not the null move, at every depth from 1 and for
  every evaluator; with a constant evaluator at depth 1 it returns g2-g3 (from square 14
  to square 22). In
  \<open>onlyCheckPosition\<close> white is not in check and b3-b4 (17 to 25) leaves the white king safe: white
  has a legal move. The filter drops it, because it gives check, and keeps nothing:
  \<open>findBestMove\<close> returns the null move, at every depth from 1, for every evaluator and
  every sort.\<close>

theorem findBestMove_legal_filter_fails:
  "(\<forall>this. initializeFromFEN this ''6k1/8/8/8/8/8/6PP/4r2K w - - 0 1'' = Some matedPosition) \<and>
   isInCheck matedPosition = Some True \<and>
   generatePseudoLegalMoves matedPosition = Some [1422, 1934, 1487, 1999, 391] \<and>
   ownKingSafeAfter matedPosition 1422 = Some False \<and>
   ownKingSafeAfter matedPosition 1934 = Some False \<and>
   ownKingSafeAfter matedPosition 1487 = Some False \<and>
   ownKingSafeAfter matedPosition 1999 = Some False \<and>
   ownKingSafeAfter matedPosition 391 = Some False \<and>
   generateLegalMoves matedPosition = Some [1422, 1934, 1487, 1999, 391] \<and>
   findBestMove (\<lambda>_. Some 0) insertionSort matedPosition 1 = Some (mkMove 14 22) \<and>
   \<not> isNull (mkMove 14 22) \<and>
   (\<forall>ev d. findBestMove ev insertionSort matedPosition (int (Suc d)) \<noteq> Some NULL_MOVE) \<and>
   (\<forall>this. initializeFromFEN this ''8/8/1p6/1P6/B7/pP6/P1k5/K7 w - - 0 1'' =
             Some onlyCheckPosition) \<and>
   isInCheck onlyCheckPosition = Some False \<and>
   generatePseudoLegalMoves onlyCheckPosition = Some [mkMove 17 25, mkMove A1 B1, mkMove A1 9] \<and>
   ownKingSafeAfter onlyCheckPosition (mkMove 17 25) = Some True \<and>
   keepIfLegal onlyCheckPosition (mkMove 17 25) = Some [] \<and>
   generateLegalMoves onlyCheckPosition = Some [] \<and>
   (\<forall>ev srt d. findBestMove ev srt onlyCheckPosition (int (Suc d)) = Some NULL_MOVE)"
proof -
  have codes: "mkMove 14 22 = 1422" "mkMove 17 25 = 1617" "mkMove A1 B1 = 64"
    "mkMove A1 9 = 576"
    by (simp_all add: move_eval)
  have nn: "\<not> isNull (1422 :: Move)"
    by (simp add: isNull_def)
  show ?thesis
    unfolding codes
    using matedPosition_parse matedPosition_pseudo matedPosition_legal matedPosition_facts
      matedPosition_search matedPosition_never_null onlyCheckPosition_parse
      onlyCheckPosition_pseudo onlyCheckPosition_legal onlyCheckPosition_facts
      onlyCheckPosition_always_null nn
    by simp
qed

end
